theory Spec2Isabelle
  imports Main "HOL-Library.AList"
begin

section \<open>The command wrappers of dwi_nodes.py\<close>

text \<open>
  The three wrappers of \<^verbatim>\<open>dwi_nodes.py\<close> (\<^verbatim>\<open>mrregister_rigid\<close>, \<^verbatim>\<open>mrtransform_linear\<close>,
  \<^verbatim>\<open>tcksift\<close>) have the same shape:
  \<^verbatim>\<open>
    tool = spawn.find_executable("<name>")
    cmd = tool + ' <flags> ' + arg + ' ' + ...
    subprocess.run(cmd)
    pass
  \<close>
  Python values are modelled as far as the wrappers and the builders use them.
\<close>

datatype pyval = PyNone | PyBool bool | PyInt int | PyStr string

text \<open>
  The exceptions a wrapper can end with: \<open>TypeError\<close> is what \<^verbatim>\<open>None + ' -type rigid '\<close>
  raises, \<open>OSError\<close> stands for whatever \<^verbatim>\<open>subprocess.run\<close> raises when it cannot start
  the program.
\<close>

datatype py_error = TypeError | OSError

text \<open>
  The first argument of \<^verbatim>\<open>subprocess.run\<close> is either one string or a sequence of
  program arguments.
\<close>

datatype cmdline = CmdString string | CmdArgs "string list"

fun is_arg_list :: "cmdline \<Rightarrow> bool" where
  "is_arg_list (CmdArgs args) = True"
| "is_arg_list (CmdString s) = False"

text \<open>
  The process environment, which the wrappers only consult: \<open>find_executable\<close> is
  \<^verbatim>\<open>distutils.spawn.find_executable\<close> (the path of the program, or \<^verbatim>\<open>None\<close>);
  \<open>subprocess_run\<close> is \<^verbatim>\<open>subprocess.run\<close> called with the command alone, so without
  \<^verbatim>\<open>check=True\<close>: it raises when the program cannot be started and otherwise returns
  the completed process, whose exit status is the \<open>int\<close>.
\<close>

record os_env =
  find_executable :: "string \<Rightarrow> string option"
  subprocess_run :: "cmdline \<Rightarrow> py_error + int"

text \<open>
  A call returns the commands it handed to \<^verbatim>\<open>subprocess.run\<close>, in order, and either
  the exception it ended with or the value it returned.
\<close>

type_synonym py_result = "cmdline list \<times> (py_error + pyval)"

text \<open>
  \<^verbatim>\<open>subprocess.run(cmd); pass\<close>: the completed process is dropped, the function falls
  off its end and returns \<^verbatim>\<open>None\<close>.
\<close>

definition run_and_pass :: "os_env \<Rightarrow> string \<Rightarrow> py_result" where
  "run_and_pass env cmd =
     (case subprocess_run env (CmdString cmd) of
        Inl e \<Rightarrow> ([CmdString cmd], Inl e)
      | Inr status \<Rightarrow> ([CmdString cmd], Inr PyNone))"

text \<open>
  In each wrapper the leftmost operand of the concatenation is the result of
  \<open>find_executable\<close>; when that is \<^verbatim>\<open>None\<close> the first \<^verbatim>\<open>+\<close> raises \<open>TypeError\<close> and
  nothing is launched. The remaining operands are the string parameters (the parameter
  \<^verbatim>\<open>image\<close> is written \<open>image_path\<close>).
\<close>

definition mrregister_rigid :: "os_env \<Rightarrow> string \<Rightarrow> string \<Rightarrow> string \<Rightarrow> py_result" where
  "mrregister_rigid env image_path template transform =
     (case find_executable env ''mrregister'' of
        None \<Rightarrow> ([], Inl TypeError)
      | Some mrregister \<Rightarrow>
          run_and_pass env
            (mrregister @ '' -type rigid '' @ '' -rigid '' @ transform @ '' '' @ image_path
               @ '' '' @ template))"

definition mrtransform_linear :: "os_env \<Rightarrow> string \<Rightarrow> string \<Rightarrow> string \<Rightarrow> py_result" where
  "mrtransform_linear env input output transform =
     (case find_executable env ''mrtransform'' of
        None \<Rightarrow> ([], Inl TypeError)
      | Some mrtransform \<Rightarrow>
          run_and_pass env
            (mrtransform @ '' -linear '' @ transform @ '' -inverse '' @ input @ '' '' @ output))"

definition tcksift :: "os_env \<Rightarrow> string \<Rightarrow> string \<Rightarrow> string \<Rightarrow> py_result" where
  "tcksift env input_tracks wm_fod filtered_tracks =
     (case find_executable env ''tcksift'' of
        None \<Rightarrow> ([], Inl TypeError)
      | Some sift \<Rightarrow>
          run_and_pass env (sift @ '' '' @ input_tracks @ '' '' @ wm_fod @ '' '' @ filtered_tracks))"

text \<open>The function a \<^verbatim>\<open>Function\<close> interface wraps, and its call on three strings.\<close>

datatype pyfun = Mrregister_rigid | Mrtransform_linear | Tcksift

fun call_pyfun :: "pyfun \<Rightarrow> os_env \<Rightarrow> string \<Rightarrow> string \<Rightarrow> string \<Rightarrow> py_result" where
  "call_pyfun Mrregister_rigid env a b c = mrregister_rigid env a b c"
| "call_pyfun Mrtransform_linear env a b c = mrtransform_linear env a b c"
| "call_pyfun Tcksift env a b c = tcksift env a b c"

text \<open>
  Environments to run the wrappers in: every tool installed under \<^verbatim>\<open>/usr/bin\<close> and every
  process exiting with the given status; and no tool installed.
\<close>

definition env_installed :: "int \<Rightarrow> os_env" where
  "env_installed status =
     \<lparr>find_executable = (\<lambda>tool. Some (''/usr/bin/'' @ tool)),
      subprocess_run = (\<lambda>cmd. Inr status)\<rparr>"

definition env_not_installed :: os_env where
  "env_not_installed =
     \<lparr>find_executable = (\<lambda>tool. None), subprocess_run = (\<lambda>cmd. Inr 0)\<rparr>"


section \<open>Nodes and workflows as the two source files declare them\<close>

text \<open>
  A connection names its two endpoints by node name:
  (source node, source port, destination node, destination port).
\<close>

type_synonym connection = "string \<times> string \<times> string \<times> string"

text \<open>
  The interfaces the sources construct. \<^verbatim>\<open>IdentityInterface(fields=..., mandatory_inputs=...)\<close>
  and \<^verbatim>\<open>Function(input_names=..., output_names=..., function=...)\<close> state their ports in
  the source. The interfaces of \<^verbatim>\<open>nipype.interfaces.mrtrix3\<close> declare theirs in that
  library; \<open>Library\<close> holds the class as the source names it, with the input and
  output names the library gives it.
\<close>

datatype interface =
    IdentityInterface "string list" bool
  | Function "string list" "string list" pyfun
  | Library string "string list" "string list"

fun interface_inputs :: "interface \<Rightarrow> string list" where
  "interface_inputs (IdentityInterface field_names mandatory_inputs) = field_names"
| "interface_inputs (Function input_names output_names f) = input_names"
| "interface_inputs (Library cls ins outs) = ins"

fun interface_outputs :: "interface \<Rightarrow> string list" where
  "interface_outputs (IdentityInterface field_names mandatory_inputs) = field_names"
| "interface_outputs (Function input_names output_names f) = output_names"
| "interface_outputs (Library cls ins outs) = outs"

text \<open>
  An object built by \<^verbatim>\<open>pe.Node\<close> or \<^verbatim>\<open>pe.Workflow\<close>. The first field is the identity of
  the Python object (the number of Node and Workflow objects constructed before it), the
  second its \<^verbatim>\<open>name\<close>, the third the plain attributes assigned on the object itself.
  A \<open>Node\<close> then has its interface and the values assigned through \<^verbatim>\<open>node.inputs\<close>; a
  \<open>Workflow\<close> has the nodes it holds, in the order they came in, and its connections,
  in the order of the calls.
\<close>

datatype node =
    Node nat string "(string \<times> pyval) list" interface "(string \<times> pyval) list"
  | Workflow nat string "(string \<times> pyval) list" "node list" "connection list"

fun node_oid :: "node \<Rightarrow> nat" where
  "node_oid (Node i n attrs iface inputs) = i"
| "node_oid (Workflow i n attrs cs es) = i"

fun node_name :: "node \<Rightarrow> string" where
  "node_name (Node i n attrs iface inputs) = n"
| "node_name (Workflow i n attrs cs es) = n"



fun children :: "node \<Rightarrow> node list" where
  "children (Node i n attrs iface inputs) = []"
| "children (Workflow i n attrs cs es) = cs"

fun connections :: "node \<Rightarrow> connection list" where
  "connections (Node i n attrs iface inputs) = []"
| "connections (Workflow i n attrs cs es) = es"

fun is_workflow :: "node \<Rightarrow> bool" where
  "is_workflow (Node i n attrs iface inputs) = False"
| "is_workflow (Workflow i n attrs cs es) = True"

text \<open>
  The ports of an object. A node has the ports of its interface. A port of a workflow
  is addressed through the node inside it that owns the port, as in
  \<^verbatim>\<open>"inputnode.diffusion_volume"\<close> or \<^verbatim>\<open>"rigid_transform_estimation.image"\<close>
  (\<^verbatim>\<open>create_core_pipeline\<close>).
\<close>

fun input_ports :: "node \<Rightarrow> string list" where
  "input_ports (Node i n attrs iface inputs) = interface_inputs iface"
| "input_ports (Workflow i n attrs cs es) =
     concat (map (\<lambda>c. map (\<lambda>p. node_name c @ ''.'' @ p) (input_ports c)) cs)"

fun output_ports :: "node \<Rightarrow> string list" where
  "output_ports (Node i n attrs iface inputs) = interface_outputs iface"
| "output_ports (Workflow i n attrs cs es) =
     concat (map (\<lambda>c. map (\<lambda>p. node_name c @ ''.'' @ p) (output_ports c)) cs)"

text \<open>The function a node runs, when its interface is a \<^verbatim>\<open>Function\<close>.\<close>

fun node_function :: "node \<Rightarrow> pyfun option" where
  "node_function (Node i n attrs (Function input_names output_names f) inputs) = Some f"
| "node_function (Node i n attrs (IdentityInterface field_names mandatory_inputs) inputs) = None"
| "node_function (Node i n attrs (Library cls ins outs) inputs) = None"
| "node_function (Workflow i n attrs cs es) = None"

text \<open>The constructors: each call makes one new object and advances the count.\<close>

definition pe_Node :: "interface \<Rightarrow> string \<Rightarrow> nat \<Rightarrow> node \<times> nat" where
  "pe_Node iface name s = (Node s name [] iface [], Suc s)"

definition pe_Workflow :: "string \<Rightarrow> nat \<Rightarrow> node \<times> nat" where
  "pe_Workflow name s = (Workflow s name [] [] [], Suc s)"

text \<open>
  \<^verbatim>\<open>node.use_ants = value\<close> (line 43 of \<^verbatim>\<open>dwi_pipelines.py\<close>), the one assignment the
  sources make on a Node object itself: \<^verbatim>\<open>use_ants\<close> is bound as an attribute of the
  object. Only this name is modelled; an assignment to a name the object has of its own,
  such as \<^verbatim>\<open>name\<close> or \<^verbatim>\<open>inputs\<close>, is another matter and does not occur in the sources.
\<close>

fun set_use_ants :: "node \<Rightarrow> pyval \<Rightarrow> node" where
  "set_use_ants (Node i n attrs iface inputs) v =
     Node i n (AList.update ''use_ants'' v attrs) iface inputs"
| "set_use_ants (Workflow i n attrs cs es) v =
     Workflow i n (AList.update ''use_ants'' v attrs) cs es"

text \<open>
  \<^verbatim>\<open>node.inputs.key = value\<close>: the value is kept with the node's inputs. (The sources
  assign inputs on nodes only.)
\<close>

fun set_input :: "node \<Rightarrow> string \<Rightarrow> pyval \<Rightarrow> node" where
  "set_input (Node i n attrs iface inputs) k v = Node i n attrs iface (AList.update k v inputs)"
| "set_input (Workflow i n attrs cs es) k v = Workflow i n attrs cs es"

text \<open>
  \<^verbatim>\<open>w.connect(src, src_port, dst, dst_port)\<close> as the sources use it. Every builder calls
  it on a Workflow it has just constructed, with nodes that were never handed to the
  workflow before, and returns the workflow afterwards: the call takes both endpoints
  into the workflow (an object already there is not taken twice) and records the
  connection. The engine that answers the call belongs to a library outside the
  repository; what it checks is not modelled here.
\<close>

definition add_endpoint :: "node list \<Rightarrow> node \<Rightarrow> node list" where
  "add_endpoint cs n = (if node_oid n \<in> set (map node_oid cs) then cs else cs @ [n])"

fun connect :: "node \<Rightarrow> node \<Rightarrow> string \<Rightarrow> node \<Rightarrow> string \<Rightarrow> node" where
  "connect (Workflow i n attrs cs es) src sp dst dp =
     Workflow i n attrs (add_endpoint (add_endpoint cs src) dst)
       (es @ [(node_name src, sp, node_name dst, dp)])"
| "connect (Node i n attrs iface inputs) src sp dst dp = Node i n attrs iface inputs"

text \<open>
  The list form \<^verbatim>\<open>w.connect([(src, dst, [(src_port, dst_port), ...]), ...])\<close>.
\<close>

fun connect_ports :: "node \<Rightarrow> node \<Rightarrow> node \<Rightarrow> (string \<times> string) list \<Rightarrow> node" where
  "connect_ports w src dst [] = w"
| "connect_ports w src dst ((sp, dp) # ps) = connect_ports (connect w src sp dst dp) src dst ps"

fun connect_list :: "node \<Rightarrow> (node \<times> node \<times> (string \<times> string) list) list \<Rightarrow> node" where
  "connect_list w [] = w"
| "connect_list w ((src, dst, ps) # rest) = connect_list (connect_ports w src dst ps) rest"

subsection \<open>The module dwi_nodes.py\<close>

text \<open>
  What a module binds at its top level: a function (\<^verbatim>\<open>def\<close>), a constant, or an
  object built by \<^verbatim>\<open>pe.Node\<close> or \<^verbatim>\<open>pe.Workflow\<close>. (Names bound by \<^verbatim>\<open>import\<close> are left
  out.)
\<close>

datatype pyglobal = PyFunction | PyConst int | PyObject node

fun global_objects :: "(string \<times> pyglobal) list \<Rightarrow> node list" where
  "global_objects [] = []"
| "global_objects ((k, PyObject n) # gs) = n # global_objects gs"
| "global_objects ((k, PyFunction) # gs) = global_objects gs"
| "global_objects ((k, PyConst c) # gs) = global_objects gs"

text \<open>
  Importing \<^verbatim>\<open>dwi_nodes.py\<close> runs its top level: three \<^verbatim>\<open>def\<close>s, then lines 61 to 65.
\<close>

definition import_dwi_nodes :: "nat \<Rightarrow> (string \<times> pyglobal) list \<times> nat" where
  "import_dwi_nodes s0 =
     (let (rigid_transform_estimation, s1) =
            pe_Node (Function [''image'', ''template''] [''transform''] Mrregister_rigid)
              ''rigid_transform_estimation'' s0;
          (apply_linear_transform, s2) =
            pe_Node (Function [''input'', ''transform''] [''output''] Mrtransform_linear)
              ''apply_linear_transform'' s1;
          (rigid_registration, s3) = pe_Workflow ''rigid_registration'' s2;
          rigid_registration =
            connect rigid_registration rigid_transform_estimation ''transform''
              apply_linear_transform ''transform'';
          (sift_filtering, s4) =
            pe_Node (Function [''input_tracks'', ''wm_fod''] [''filtered_tracks''] Tcksift)
              ''sift_filtering'' s3
      in ([(''mrregister_rigid'', PyFunction),
           (''mrtransform_linear'', PyFunction),
           (''tcksift'', PyFunction),
           (''rigid_transform_estimation'', PyObject rigid_transform_estimation),
           (''apply_linear_transform'', PyObject apply_linear_transform),
           (''rigid_registration'', PyObject rigid_registration),
           (''sift_filtering'', PyObject sift_filtering)], s4))"

subsection \<open>The module mrproc/pipelines/dwi_pipelines.py\<close>

text \<open>
  What the module takes from outside the two source files: the port names of the
  \<^verbatim>\<open>nipype.interfaces.mrtrix3\<close> classes, and the four functions imported from
  \<^verbatim>\<open>mrproc.nodes.mrtrix_nodes\<close> and \<^verbatim>\<open>mrproc.nodes.custom_nodes\<close>. They are parameters of
  every builder. Each imported function returns an object and the advanced count.
\<close>

record library =
  input_traits :: "string \<Rightarrow> string list"
  output_traits :: "string \<Rightarrow> string list"
  create_tractography_node :: "int \<Rightarrow> int \<Rightarrow> int \<Rightarrow> nat \<Rightarrow> node \<times> nat"
  create_tissue_classification_node :: "nat \<Rightarrow> node \<times> nat"
  create_sift_filtering_node :: "nat \<Rightarrow> node \<times> nat"
  create_rigid_registration_pipeline :: "nat \<Rightarrow> node \<times> nat"

definition lib_interface :: "library \<Rightarrow> string \<Rightarrow> interface" where
  "lib_interface L cls = Library cls (input_traits L cls) (output_traits L cls)"

definition N_TRACKS :: int where "N_TRACKS = 5000000"
definition MIN_LENGTH :: int where "MIN_LENGTH = 10"
definition MAX_LENGTH :: int where "MAX_LENGTH = 300"

definition create_preprocessing_pipeline :: "library \<Rightarrow> nat \<Rightarrow> node \<times> nat" where
  "create_preprocessing_pipeline L s0 =
     (let (diffusionbiascorrect, s1) =
            pe_Node (lib_interface L ''mrtrix3.preprocess.DWIBiasCorrect'')
              ''diffusionbiascorrect'' s0;
          diffusionbiascorrect = set_use_ants diffusionbiascorrect (PyBool True);
          (diffusion2mask, s2) =
            pe_Node (lib_interface L ''mrtrix3.utils.BrainMask'') ''diffusion2mask'' s1;
          (inputnode, s3) =
            pe_Node (IdentityInterface [''diffusion_volume''] False) ''inputnode'' s2;
          (outputnode, s4) =
            pe_Node (IdentityInterface [''corrected_diffusion_volume'', ''mask''] False)
              ''outputnode'' s3;
          (preproc, s5) = pe_Workflow ''preprocessing'' s4;
          preproc = connect preproc inputnode ''diffusion_volume'' diffusionbiascorrect ''in_file'';
          preproc = connect preproc diffusionbiascorrect ''out_file'' diffusion2mask ''in_file'';
          preproc = connect preproc diffusionbiascorrect ''out_file''
                      outputnode ''corrected_diffusion_volume'';
          preproc = connect preproc diffusion2mask ''out_file'' outputnode ''mask''
      in (preproc, s5))"

definition create_tensor_pipeline :: "library \<Rightarrow> nat \<Rightarrow> node \<times> nat" where
  "create_tensor_pipeline L s0 =
     (let (diffusion2tensor, s1) =
            pe_Node (lib_interface L ''mrtrix3.reconst.FitTensor'') ''diffusion2tensor'' s0;
          (tensor2fa, s2) =
            pe_Node (lib_interface L ''mrtrix3.TensorMetrics'') ''tensor2fa'' s1;
          (inputnode, s3) =
            pe_Node (IdentityInterface [''diffusion_volume'', ''mask''] False) ''inputnode'' s2;
          (outputnode, s4) =
            pe_Node (IdentityInterface [''tensor_coeff'', ''fa''] False) ''outputnode'' s3;
          (tensor, s5) = pe_Workflow ''tensor'' s4;
          tensor = connect tensor inputnode ''diffusion_volume'' diffusion2tensor ''in_file'';
          tensor = connect tensor inputnode ''mask'' diffusion2tensor ''in_mask'';
          tensor = connect tensor diffusion2tensor ''out_file'' tensor2fa ''in_file'';
          tensor = connect tensor diffusion2tensor ''out_file'' outputnode ''tensor_coeff'';
          tensor = connect tensor tensor2fa ''out_fa'' outputnode ''fa''
      in (tensor, s5))"

definition create_spherical_deconvolution_pipeline :: "library \<Rightarrow> nat \<Rightarrow> node \<times> nat" where
  "create_spherical_deconvolution_pipeline L s0 =
     (let (diffusion2response, s1) =
            pe_Node (lib_interface L ''mrtrix3.preprocess.ResponseSD'') ''diffusion2response'' s0;
          diffusion2response = set_input diffusion2response ''algorithm'' (PyStr ''msmt_5tt'');
          (diffusion2fod, s2) =
            pe_Node (lib_interface L ''mrtrix3.reconst.ConstrainedSphericalDeconvolution'')
              ''diffusion2fod'' s1;
          (inputnode, s3) =
            pe_Node (IdentityInterface [''diffusion_volume'', ''mask'', ''5tt_file''] False)
              ''inputnode'' s2;
          (outputnode, s4) = pe_Node (IdentityInterface [''wm_fod''] False) ''outputnode'' s3;
          (csd, s5) = pe_Workflow ''msmt_csd'' s4;
          csd = connect_list csd
                  [(inputnode, diffusion2response,
                    [(''diffusion_volume'', ''in_file''),
                     (''mask'', ''in_mask''),
                     (''5tt_file'', ''mtt_file'')])];
          csd = connect_list csd
                  [(diffusion2response, diffusion2fod,
                    [(''wm_file'', ''wm_txt''), (''gm_file'', ''gm_txt''),
                     (''csf_file'', ''csf_txt'')])];
          csd = connect csd inputnode ''diffusion_volume'' diffusion2fod ''in_file'';
          csd = connect csd diffusion2fod ''wm_odf'' outputnode ''wm_odf''
      in (csd, s5))"

definition create_tractogram_generation_pipeline :: "library \<Rightarrow> int \<Rightarrow> nat \<Rightarrow> node \<times> nat" where
  "create_tractogram_generation_pipeline L n_tracks s0 =
     (let (tractography, s1) = create_tractography_node L n_tracks MIN_LENGTH MAX_LENGTH s0;
          (sift_filtering, s2) = create_sift_filtering_node L s1;
          (inputnode, s3) =
            pe_Node (IdentityInterface [''wm_fod'', ''mask'', ''act_file''] False) ''inputnode'' s2;
          (outputnode, s4) = pe_Node (IdentityInterface [''tractogram''] False) ''outputnode'' s3;
          (tractogram_pipeline, s5) = pe_Workflow ''tractogram_pipeline'' s4;
          tractogram_pipeline = connect_list tractogram_pipeline
                  [(inputnode, tractography,
                    [(''wm_fod'', ''in_file''), (''mask'', ''roi_mask''),
                     (''act_file'', ''act_file'')])];
          tractogram_pipeline =
            connect tractogram_pipeline inputnode ''wm_fod'' sift_filtering ''wm_fod'';
          tractogram_pipeline =
            connect tractogram_pipeline inputnode ''mask'' tractography ''seed_gmwmi'';
          tractogram_pipeline =
            connect tractogram_pipeline tractography ''out_file'' sift_filtering ''input_tracks'';
          tractogram_pipeline =
            connect tractogram_pipeline sift_filtering ''filtered_tracks'' outputnode ''tractogram''
      in (tractogram_pipeline, s5))"

definition create_core_pipeline :: "library \<Rightarrow> nat \<Rightarrow> node \<times> nat" where
  "create_core_pipeline L s0 =
     (let (preprocessing, s1) = create_preprocessing_pipeline L s0;
          (tensor, s2) = create_tensor_pipeline L s1;
          (tissue_classif, s3) = create_tissue_classification_node L s2;
          (rigid_registration, s4) = create_rigid_registration_pipeline L s3;
          (csd, s5) = create_spherical_deconvolution_pipeline L s4;
          (tractogram_generation, s6) = create_tractogram_generation_pipeline L N_TRACKS s5;
          (inputnode, s7) =
            pe_Node (IdentityInterface [''diffusion_volume'', ''t1_volume''] False) ''inputnode'' s6;
          (outputnode, s8) =
            pe_Node (IdentityInterface [''corrected_diffusion_volume'', ''wm_fod'', ''tractogram'']
                       False) ''outputnode'' s7;
          (core_pipeline, s9) = pe_Workflow ''core_diffusion_pipeline'' s8;
          core_pipeline = connect core_pipeline inputnode ''diffusion_volume''
                            preprocessing ''inputnode.diffusion_volume'';
          core_pipeline = connect core_pipeline preprocessing
                            ''outputnode.corrected_diffusion_volume''
                            tensor ''inputnode.diffusion_volume'';
          core_pipeline = connect core_pipeline preprocessing ''outputnode.mask''
                            tensor ''inputnode.mask'';
          core_pipeline = connect core_pipeline preprocessing
                            ''outputnode.corrected_diffusion_volume''
                            csd ''inputnode.diffusion_volume'';
          core_pipeline = connect core_pipeline tensor ''outputnode.fa''
                            rigid_registration ''rigid_transform_estimation.image'';
          core_pipeline = connect core_pipeline inputnode ''t1_volume'' tissue_classif ''in_file'';
          core_pipeline = connect core_pipeline tissue_classif ''out_file''
                            rigid_registration ''apply_linear_transform.in_file'';
          core_pipeline = connect core_pipeline rigid_registration
                            ''apply_linear_transform.out_file'' csd ''inputnode.5tt_file'';
          core_pipeline = connect core_pipeline preprocessing ''outputnode.mask''
                            csd ''inputnode.mask'';
          core_pipeline = connect core_pipeline csd ''outputnode.wm_fod''
                            tractogram_generation ''inputnode.wm_fod'';
          core_pipeline = connect core_pipeline preprocessing ''outputnode.mask''
                            tractogram_generation ''inputnode.mask'';
          core_pipeline = connect core_pipeline rigid_registration
                            ''apply_linear_transform.out_file''
                            tractogram_generation ''inputnode.act_file'';
          core_pipeline = connect core_pipeline tractogram_generation ''outputnode.tractogram''
                            outputnode ''tractogram'';
          core_pipeline = connect core_pipeline csd ''outputnode.wm_fod'' outputnode ''wm_fod'';
          core_pipeline = connect core_pipeline preprocessing
                            ''outputnode.corrected_diffusion_volume''
                            outputnode ''corrected_diffusion_volume''
      in (core_pipeline, s9))"

definition create_diffusion_pipeline :: "library \<Rightarrow> nat \<Rightarrow> node \<times> nat" where
  "create_diffusion_pipeline L s0 =
     (let (mrconvert, s1) = pe_Node (lib_interface L ''mrtrix3.MRConvert'') ''mrconvert'' s0;
          (core_pipeline, s2) = create_core_pipeline L s1;
          (inputnode, s3) =
            pe_Node (IdentityInterface [''diffusion_volume'', ''bvals'', ''bvecs'', ''t1_volume'']
                       False) ''inputnode'' s2;
          (outputnode, s4) =
            pe_Node (IdentityInterface [''corrected_diffusion_volume'', ''wm_fod'', ''tractogram'']
                       False) ''outputnode'' s3;
          (diffusion_pipeline, s5) = pe_Workflow ''diffusion_pipeline'' s4;
          diffusion_pipeline = connect_list diffusion_pipeline
                  [(inputnode, mrconvert,
                    [(''diffusion_volume'', ''in_file''), (''bvals'', ''in_bval''),
                     (''bvecs'', ''in_bvec'')])];
          diffusion_pipeline = connect diffusion_pipeline mrconvert ''out_file''
                                 core_pipeline ''inputnode.diffusion_volume'';
          diffusion_pipeline = connect diffusion_pipeline inputnode ''t1_volume''
                                 core_pipeline ''inputnode.t1_volume'';
          diffusion_pipeline = connect diffusion_pipeline core_pipeline
                                 ''outputnode.corrected_diffusion_volume''
                                 outputnode ''corrected_diffusion_volume'';
          diffusion_pipeline = connect diffusion_pipeline core_pipeline ''outputnode.wm_fod''
                                 outputnode ''wm_fod'';
          diffusion_pipeline = connect diffusion_pipeline core_pipeline ''outputnode.tractogram''
                                 outputnode ''tractogram''
      in (diffusion_pipeline, s5))"

text \<open>
  Importing \<^verbatim>\<open>dwi_pipelines.py\<close> runs its own top level: three constants and six
  \<^verbatim>\<open>def\<close>s (the \<^verbatim>\<open>__main__\<close> block is \<^verbatim>\<open>pass\<close>).
\<close>

definition import_dwi_pipelines :: "nat \<Rightarrow> (string \<times> pyglobal) list \<times> nat" where
  "import_dwi_pipelines s0 =
     ([(''N_TRACKS'', PyConst N_TRACKS),
       (''MIN_LENGTH'', PyConst MIN_LENGTH),
       (''MAX_LENGTH'', PyConst MAX_LENGTH),
       (''create_preprocessing_pipeline'', PyFunction),
       (''create_tensor_pipeline'', PyFunction),
       (''create_spherical_deconvolution_pipeline'', PyFunction),
       (''create_tractogram_generation_pipeline'', PyFunction),
       (''create_core_pipeline'', PyFunction),
       (''create_diffusion_pipeline'', PyFunction)], s0)"

subsection \<open>The objects a call constructs\<close>

text \<open>
  The identities of the objects a Node or Workflow object is made of: its own, and for
  a workflow those of the objects it holds.
\<close>

fun oids :: "node \<Rightarrow> nat list" where
  "oids (Node i n attrs iface inputs) = [i]"
| "oids (Workflow i n attrs cs es) = i # concat (map oids cs)"

text \<open>
  A call constructs its result afresh when, from whatever count it starts, every object
  of the result is constructed during the call: its identity lies between the count at
  the start and the count at the end.
\<close>

definition fresh_call :: "(nat \<Rightarrow> node \<times> nat) \<Rightarrow> bool" where
  "fresh_call f = (\<forall>s. s \<le> snd (f s) \<and> set (oids (fst (f s))) \<subseteq> {s ..< snd (f s)})"

text \<open>The same, asked of the four imported functions.\<close>

definition fresh_library :: "library \<Rightarrow> bool" where
  "fresh_library L =
     ((\<forall>n_tracks min_length max_length.
         fresh_call (create_tractography_node L n_tracks min_length max_length)) \<and>
      fresh_call (create_tissue_classification_node L) \<and>
      fresh_call (create_sift_filtering_node L) \<and>
      fresh_call (create_rigid_registration_pipeline L))"

text \<open>The two ends of a connection.\<close>

fun conn_source :: "connection \<Rightarrow> string \<times> string" where
  "conn_source (src, sp, dst, dp) = (src, sp)"

fun conn_dest :: "connection \<Rightarrow> string \<times> string" where
  "conn_dest (src, sp, dst, dp) = (dst, dp)"

section \<open>The workflow engine the specification describes\<close>

text \<open>
  The engine that answers \<^verbatim>\<open>connect\<close> and later flattens and runs a workflow is not
  part of the two source files: the sources import it. Its operations are therefore
  written after the specification (sections 3, 4.2, 4.3 and 7), on the nodes and
  connections declared above.
\<close>

datatype wf_error =
    DuplicateNodeId | UnknownPort | PortDirectionMismatch | DestinationAlreadyBound
  | UnboundExposedPort | CyclicConnection

text \<open>The nodes registered in a workflow under assembly, and its connections so far.\<close>

type_synonym registry = "node list \<times> connection list"

definition find_node :: "node list \<Rightarrow> string \<Rightarrow> node option" where
  "find_node cs name = find (\<lambda>n. node_name n = name) cs"

text \<open>
  Modelled from the spec: \<^verbatim>\<open>add_node(node)\<close> of section 4.2, which the sources never
  call: it registers a child and fails with \<open>DuplicateNodeId\<close> if the id collides.
\<close>

definition spec_add_node :: "registry \<Rightarrow> node \<Rightarrow> wf_error + registry" where
  "spec_add_node r n =
     (if node_name n \<in> set (map node_name (fst r)) then Inl DuplicateNodeId
      else Inr (fst r @ [n], snd r))"

definition declared_ports :: "node \<Rightarrow> string list" where
  "declared_ports n = input_ports n @ output_ports n"

text \<open>
  Modelled from the spec: \<^verbatim>\<open>connect(source_node, source_port, dest_node, dest_port)\<close> of
  section 4.2, whose implementation is in the engine the sources import. It fails with
  \<open>UnknownPort\<close> if either port is undeclared, and also when an endpoint was not
  registered by \<^verbatim>\<open>add_node\<close> before (section 8); with \<open>PortDirectionMismatch\<close> if the
  source is not an output or the destination not an input; with
  \<open>DestinationAlreadyBound\<close> if the destination input already has a connection.
\<close>

fun spec_connect :: "registry \<Rightarrow> connection \<Rightarrow> wf_error + registry" where
  "spec_connect (cs, es) (src, sp, dst, dp) =
     (case find_node cs src of
        None \<Rightarrow> Inl UnknownPort
      | Some a \<Rightarrow>
          (case find_node cs dst of
             None \<Rightarrow> Inl UnknownPort
           | Some b \<Rightarrow>
               if sp \<notin> set (declared_ports a) \<or> dp \<notin> set (declared_ports b) then Inl UnknownPort
               else if sp \<notin> set (output_ports a) \<or> dp \<notin> set (input_ports b)
                 then Inl PortDirectionMismatch
               else if (dst, dp) \<in> set (map conn_dest es) then Inl DestinationAlreadyBound
               else Inr (cs, es @ [(src, sp, dst, dp)])))"

text \<open>
  Assembling a workflow is a sequence of the two operations; a construction-time error
  is reported at once and ends the assembly (section 7).
\<close>

datatype op = AddNode node | Connect connection

fun apply_op :: "registry \<Rightarrow> op \<Rightarrow> wf_error + registry" where
  "apply_op r (AddNode n) = spec_add_node r n"
| "apply_op r (Connect c) = spec_connect r c"

fun assemble :: "registry \<Rightarrow> op list \<Rightarrow> wf_error + registry" where
  "assemble r [] = Inr r"
| "assemble r (x # xs) = (case apply_op r x of Inl e \<Rightarrow> Inl e | Inr r' \<Rightarrow> assemble r' xs)"

fun added_names :: "op list \<Rightarrow> string list" where
  "added_names [] = []"
| "added_names (AddNode n # xs) = node_name n # added_names xs"
| "added_names (Connect c # xs) = added_names xs"

text \<open>
  The invariants of section 3: node ids are unique, every destination port has at most
  one connection, and every connection goes from a declared output of a registered node
  to a declared input of a registered node.
\<close>

definition well_connected :: "registry \<Rightarrow> bool" where
  "well_connected r =
     (distinct (map node_name (fst r)) \<and>
      distinct (map conn_dest (snd r)) \<and>
      (\<forall>(src, sp, dst, dp) \<in> set (snd r).
         \<exists>a b. find_node (fst r) src = Some a \<and> find_node (fst r) dst = Some b \<and>
               sp \<in> set (output_ports a) \<and> dp \<in> set (input_ports b)))"

subsection \<open>Flattening\<close>

text \<open>
  An endpoint of the flat graph: the path of node names from the outermost workflow
  down to an atomic node, and a port of that node.
\<close>

type_synonym endpoint = "string list \<times> string"

text \<open>
  A port of a workflow names a node inside it and a port of that node, separated by the
  first dot.
\<close>

definition split_port :: "string \<Rightarrow> (string \<times> string) option" where
  "split_port p =
     (if CHR ''.'' \<in> set p
      then Some (takeWhile (\<lambda>c. c \<noteq> CHR ''.'') p, tl (dropWhile (\<lambda>c. c \<noteq> CHR ''.'') p))
      else None)"

fun is_identity :: "node \<Rightarrow> bool" where
  "is_identity (Node i n attrs (IdentityInterface field_names mandatory_inputs) inputs) = True"
| "is_identity (Node i n attrs (Function input_names output_names f) inputs) = False"
| "is_identity (Node i n attrs (Library cls ins outs) inputs) = False"
| "is_identity (Workflow i n attrs cs es) = False"

text \<open>
  Modelled from the spec: the facades of a workflow (sections 2 and 3) are not an
  operation of the sources; every builder names its two Identity Nodes \<^verbatim>\<open>inputnode\<close> and
  \<^verbatim>\<open>outputnode\<close>. The ports a workflow exposes are the fields of these two nodes, and an
  exposed output is internally connected when a connection of the workflow ends at it.
\<close>

definition exposed_outputs :: "node \<Rightarrow> string list" where
  "exposed_outputs w =
     (case find_node (children w) ''outputnode'' of
        None \<Rightarrow> []
      | Some facade \<Rightarrow> if is_identity facade then output_ports facade else [])"

definition exposed_inputs :: "node \<Rightarrow> string list" where
  "exposed_inputs w =
     (case find_node (children w) ''inputnode'' of
        None \<Rightarrow> []
      | Some facade \<Rightarrow> if is_identity facade then input_ports facade else [])"

definition unbound_outputs :: "node \<Rightarrow> string list" where
  "unbound_outputs w =
     filter (\<lambda>f. (''outputnode'', f) \<notin> set (map conn_dest (connections w))) (exposed_outputs w)"

text \<open>A workflow and all the workflows nested in it.\<close>

fun subworkflows :: "node \<Rightarrow> node list" where
  "subworkflows (Node i n attrs iface inputs) = []"
| "subworkflows (Workflow i n attrs cs es) =
     Workflow i n attrs cs es # concat (map subworkflows cs)"

fun first_error :: "(wf_error + 'a list) list \<Rightarrow> wf_error + 'a list" where
  "first_error [] = Inr []"
| "first_error (Inl e # rs) = Inl e"
| "first_error (Inr xs # rs) = (case first_error rs of Inl e \<Rightarrow> Inl e | Inr ys \<Rightarrow> Inr (xs @ ys))"

definition under :: "string \<Rightarrow> endpoint \<Rightarrow> endpoint" where
  "under n e = (n # fst e, snd e)"

text \<open>
  Modelled from the spec: the resolution of a connection's source in section 4.3, which
  belongs to the engine. If the node is atomic, the resolved source is the node and
  port themselves; if it is a workflow, the source is found through the connection
  inside it whose destination is the output facade port, resolved in turn, and a facade
  port with no such connection is \<open>UnboundExposedPort\<close>. A port of a workflow that names
  another node inside it is resolved at that node.
\<close>

fun resolve_source :: "node \<Rightarrow> string \<Rightarrow> wf_error + endpoint" where
  "resolve_source (Node i n attrs iface inputs) p = Inr ([n], p)"
| "resolve_source (Workflow i n attrs cs es) p =
     (case split_port p of
        None \<Rightarrow> Inl UnknownPort
      | Some (x, q) \<Rightarrow>
          if q \<in> set (exposed_outputs (Workflow i n attrs cs es)) \<and> x = ''outputnode'' then
            (case find (\<lambda>c. conn_dest c = (x, q)) es of
               None \<Rightarrow> Inl UnboundExposedPort
             | Some (src, sp, dst, dp) \<Rightarrow>
                 (case map_of (map (\<lambda>c. (node_name c, resolve_source c sp)) cs) src of
                    None \<Rightarrow> Inl UnknownPort
                  | Some r \<Rightarrow> map_sum id (under n) r))
          else
            (case map_of (map (\<lambda>c. (node_name c, resolve_source c q)) cs) x of
               None \<Rightarrow> Inl UnknownPort
             | Some r \<Rightarrow> map_sum id (under n) r))"

text \<open>
  Modelled from the spec: the symmetric resolution of a destination through the input
  facade (section 4.3). An exposed input may feed several nodes inside, or none, in
  which case it is flattened away.
\<close>

fun resolve_dest :: "node \<Rightarrow> string \<Rightarrow> wf_error + endpoint list" where
  "resolve_dest (Node i n attrs iface inputs) p = Inr [([n], p)]"
| "resolve_dest (Workflow i n attrs cs es) p =
     (case split_port p of
        None \<Rightarrow> Inl UnknownPort
      | Some (x, q) \<Rightarrow>
          if q \<in> set (exposed_inputs (Workflow i n attrs cs es)) \<and> x = ''inputnode'' then
            map_sum id (map (under n))
              (first_error
                 (map (\<lambda>e. case map_of (map (\<lambda>c. (node_name c,
                                resolve_dest c (snd (conn_dest e)))) cs) (fst (conn_dest e)) of
                             None \<Rightarrow> Inl UnknownPort
                           | Some r \<Rightarrow> r)
                    (filter (\<lambda>e. conn_source e = (x, q)) es)))
          else
            (case map_of (map (\<lambda>c. (node_name c, resolve_dest c q)) cs) x of
               None \<Rightarrow> Inl UnknownPort
             | Some r \<Rightarrow> map_sum id (map (under n)) r))"

definition resolve_edge :: "node list \<Rightarrow> connection \<Rightarrow> wf_error + (endpoint \<times> endpoint) list" where
  "resolve_edge cs e =
     (case find_node cs (fst (conn_source e)) of
        None \<Rightarrow> Inl UnknownPort
      | Some a \<Rightarrow>
          (case resolve_source a (snd (conn_source e)) of
             Inl err \<Rightarrow> Inl err
           | Inr s \<Rightarrow>
               (case find_node cs (fst (conn_dest e)) of
                  None \<Rightarrow> Inl UnknownPort
                | Some b \<Rightarrow>
                    (case resolve_dest b (snd (conn_dest e)) of
                       Inl err \<Rightarrow> Inl err
                     | Inr ds \<Rightarrow> Inr (map (\<lambda>d. (s, d)) ds)))))"

definition touches_facade :: "connection \<Rightarrow> bool" where
  "touches_facade e = (fst (conn_source e) = ''inputnode'' \<or> fst (conn_dest e) = ''outputnode'')"

text \<open>
  The edges of the flat graph: the connections of the outermost workflow, resolved, and
  inside every nested workflow the connections that touch neither of its facades (those
  that do are followed by the resolution above).
\<close>

fun flat_edges :: "bool \<Rightarrow> node \<Rightarrow> wf_error + (endpoint \<times> endpoint) list" where
  "flat_edges outermost (Node i n attrs iface inputs) = Inr []"
| "flat_edges outermost (Workflow i n attrs cs es) =
     (case first_error
             (map (resolve_edge cs)
                (if outermost then es else filter (\<lambda>e. \<not> touches_facade e) es)) of
        Inl err \<Rightarrow> Inl err
      | Inr own \<Rightarrow>
          (case first_error
                  (map (\<lambda>c. map_sum id
                               (map (\<lambda>e. (under (node_name c) (fst e), under (node_name c) (snd e))))
                               (flat_edges False c)) cs) of
             Inl err \<Rightarrow> Inl err
           | Inr nested \<Rightarrow> Inr (own @ nested)))"

fun flat_nodes :: "node \<Rightarrow> (string list \<times> node) list" where
  "flat_nodes (Node i n attrs iface inputs) = [([n], Node i n attrs iface inputs)]"
| "flat_nodes (Workflow i n attrs cs es) =
     concat (map (\<lambda>c. if is_workflow c
                       then map (\<lambda>(path, a). (node_name c # path, a)) (flat_nodes c)
                       else [([node_name c], c)]) cs)"

text \<open>
  Cycle detection on the flat graph: edges whose source node has no incoming edge are
  removed, as many times as there are edges; what remains lies on or behind a cycle.
\<close>

fun prune :: "nat \<Rightarrow> (string list \<times> string list) list \<Rightarrow> (string list \<times> string list) list" where
  "prune 0 es = es"
| "prune (Suc k) es = prune k (filter (\<lambda>e. fst e \<in> set (map snd es)) es)"

definition has_cycle :: "(endpoint \<times> endpoint) list \<Rightarrow> bool" where
  "has_cycle es =
     (prune (length es) (map (\<lambda>e. (fst (fst e), fst (snd e))) es) \<noteq> [])"

text \<open>
  Modelled from the spec: the Flattening/Resolver of section 4.3, a component of the
  engine. A workflow, at any depth, that exposes an output port never internally
  connected makes flattening fail with \<open>UnboundExposedPort\<close>; otherwise every connection
  is resolved to atomic endpoints, a cycle fails with \<open>CyclicConnection\<close>, and the result
  is the atomic nodes by path with the atomic-to-atomic connections.
\<close>

definition flatten ::
  "node \<Rightarrow> wf_error + (string list \<times> node) list \<times> (endpoint \<times> endpoint) list" where
  "flatten w =
     (if \<not> list_all (\<lambda>sub. unbound_outputs sub = []) (subworkflows w) then Inl UnboundExposedPort
      else case flat_edges True w of
             Inl err \<Rightarrow> Inl err
           | Inr es \<Rightarrow> if has_cycle es then Inl CyclicConnection else Inr (flat_nodes w, es))"

section \<open>A library to run the builders with\<close>

text \<open>
  For closed examples the parameters of the builders need values. In \<open>example_library\<close>
  every \<^verbatim>\<open>mrtrix3\<close> class has the ports the builders connect, and the four imported
  functions build nodes with the names and ports \<^verbatim>\<open>create_tractogram_generation_pipeline\<close>
  and \<^verbatim>\<open>create_core_pipeline\<close> address.
\<close>

definition example_library :: library where
  "example_library =
     \<lparr>input_traits = (\<lambda>cls. case map_of
          [(''mrtrix3.preprocess.DWIBiasCorrect'', [''in_file'']),
           (''mrtrix3.utils.BrainMask'', [''in_file'']),
           (''mrtrix3.reconst.FitTensor'', [''in_file'', ''in_mask'']),
           (''mrtrix3.TensorMetrics'', [''in_file'']),
           (''mrtrix3.preprocess.ResponseSD'', [''in_file'', ''in_mask'', ''mtt_file'']),
           (''mrtrix3.reconst.ConstrainedSphericalDeconvolution'',
              [''in_file'', ''wm_txt'', ''gm_txt'', ''csf_txt'']),
           (''mrtrix3.MRConvert'', [''in_file'', ''in_bval'', ''in_bvec''])] cls of
          None \<Rightarrow> [] | Some ps \<Rightarrow> ps),
      output_traits = (\<lambda>cls. case map_of
          [(''mrtrix3.preprocess.DWIBiasCorrect'', [''out_file'']),
           (''mrtrix3.utils.BrainMask'', [''out_file'']),
           (''mrtrix3.reconst.FitTensor'', [''out_file'']),
           (''mrtrix3.TensorMetrics'', [''out_fa'']),
           (''mrtrix3.preprocess.ResponseSD'', [''wm_file'', ''gm_file'', ''csf_file'']),
           (''mrtrix3.reconst.ConstrainedSphericalDeconvolution'',
              [''wm_odf'', ''gm_odf'', ''csf_odf'']),
           (''mrtrix3.MRConvert'', [''out_file''])] cls of
          None \<Rightarrow> [] | Some ps \<Rightarrow> ps),
      create_tractography_node = (\<lambda>n_tracks min_length max_length s.
          let (tractography, s1) =
                pe_Node (Library ''mrtrix3.Tractography''
                           [''in_file'', ''roi_mask'', ''act_file'', ''seed_gmwmi''] [''out_file''])
                  ''tractography'' s;
              tractography = set_input tractography ''select'' (PyInt n_tracks);
              tractography = set_input tractography ''min_length'' (PyInt min_length);
              tractography = set_input tractography ''max_length'' (PyInt max_length)
          in (tractography, s1)),
      create_tissue_classification_node =
          pe_Node (Library ''mrtrix3.Generate5tt'' [''in_file''] [''out_file'']) ''tissue_classif'',
      create_sift_filtering_node =
          pe_Node (Function [''input_tracks'', ''wm_fod''] [''filtered_tracks''] Tcksift)
            ''sift_filtering'',
      create_rigid_registration_pipeline = (\<lambda>s.
          let (rigid_transform_estimation, s1) =
                pe_Node (Function [''image'', ''template''] [''transform''] Mrregister_rigid)
                  ''rigid_transform_estimation'' s;
              (apply_linear_transform, s2) =
                pe_Node (Function [''in_file'', ''transform''] [''out_file''] Mrtransform_linear)
                  ''apply_linear_transform'' s1;
              (rigid_registration, s3) = pe_Workflow ''rigid_registration'' s2;
              rigid_registration =
                connect rigid_registration rigid_transform_estimation ''transform''
                  apply_linear_transform ''transform''
          in (rigid_registration, s3))\<rparr>"


section \<open>What a run of a wrapper returns\<close>

lemma wrapper_outcome:
  "call_pyfun f env a b c = ([], Inl TypeError) \<or>
   (\<exists>cmd. fst (call_pyfun f env a b c) = [CmdString cmd] \<and>
      snd (call_pyfun f env a b c) =
        (case subprocess_run env (CmdString cmd) of
           Inl e \<Rightarrow> Inl e
         | Inr status \<Rightarrow> Inr PyNone))"
  by (cases f)
     (auto simp: mrregister_rigid_def mrtransform_linear_def tcksift_def run_and_pass_def
           split: option.splits sum.splits)

text \<open>
  Claim C1 says that a run whose executable is not on the search path returns a
  tool-not-found failure, and that a run whose child process exits with a non-zero
  status returns a failure. Neither holds of \<^verbatim>\<open>mrregister_rigid\<close>: with no
  \<^verbatim>\<open>mrregister\<close> installed the call ends with Python's \<open>TypeError\<close>, and with the
  process exiting with status 1 it returns \<^verbatim>\<open>None\<close>.
\<close>

theorem mrregister_rigid_no_typed_failure:
  "mrregister_rigid env_not_installed ''dwi.mif'' ''t1.mif'' ''rigid.txt'' = ([], Inl TypeError) \<and>
   subprocess_run (env_installed 1)
     (CmdString ''/usr/bin/mrregister -type rigid  -rigid rigid.txt dwi.mif t1.mif'') = Inr 1 \<and>
   mrregister_rigid (env_installed 1) ''dwi.mif'' ''t1.mif'' ''rigid.txt'' =
     ([CmdString ''/usr/bin/mrregister -type rigid  -rigid rigid.txt dwi.mif t1.mif''],
      Inr PyNone)"
  by (simp add: mrregister_rigid_def run_and_pass_def env_installed_def env_not_installed_def)

text \<open>
  Claim C1, amended: in each of the three wrappers, when the executable is not found the
  run ends with \<open>TypeError\<close> before anything is launched; and when the child process was
  started and has exited, with whatever status, the run returns \<^verbatim>\<open>None\<close>.
\<close>

theorem wrapper_missing_tool_and_exit_status:
  "(find_executable env ''mrregister'' = None \<longrightarrow>
      mrregister_rigid env image_path template transform = ([], Inl TypeError)) \<and>
   (find_executable env ''mrtransform'' = None \<longrightarrow>
      mrtransform_linear env input output transform = ([], Inl TypeError)) \<and>
   (find_executable env ''tcksift'' = None \<longrightarrow>
      tcksift env input_tracks wm_fod filtered_tracks = ([], Inl TypeError)) \<and>
   (\<forall>cmd status.
      fst (call_pyfun f env a b c) = [CmdString cmd] \<and>
      subprocess_run env (CmdString cmd) = Inr status \<longrightarrow>
      snd (call_pyfun f env a b c) = Inr PyNone)"
proof -
  have missing:
    "find_executable env ''mrregister'' = None \<longrightarrow>
       mrregister_rigid env image_path template transform = ([], Inl TypeError)"
    "find_executable env ''mrtransform'' = None \<longrightarrow>
       mrtransform_linear env input output transform = ([], Inl TypeError)"
    "find_executable env ''tcksift'' = None \<longrightarrow>
       tcksift env input_tracks wm_fod filtered_tracks = ([], Inl TypeError)"
    by (simp_all add: mrregister_rigid_def mrtransform_linear_def tcksift_def)
  have exited:
    "snd (call_pyfun f env a b c) = Inr PyNone"
    if "fst (call_pyfun f env a b c) = [CmdString cmd]"
      and "subprocess_run env (CmdString cmd) = Inr status" for cmd status
    using wrapper_outcome [of f env a b c] that by auto
  from missing exited show ?thesis by blast
qed

theorem wrapper_missing_tool_and_exit_status_witness:
  "find_executable env_not_installed ''tcksift'' = None \<and>
   tcksift env_not_installed ''all.tck'' ''wm_fod.mif'' ''sift.tck'' = ([], Inl TypeError) \<and>
   fst (call_pyfun Tcksift (env_installed 2) ''all.tck'' ''wm_fod.mif'' ''sift.tck'') =
     [CmdString ''/usr/bin/tcksift all.tck wm_fod.mif sift.tck''] \<and>
   subprocess_run (env_installed 2) (CmdString ''/usr/bin/tcksift all.tck wm_fod.mif sift.tck'')
     = Inr 2 \<and>
   snd (call_pyfun Tcksift (env_installed 2) ''all.tck'' ''wm_fod.mif'' ''sift.tck'') = Inr PyNone"
proof -
  have none: "find_executable env_not_installed ''tcksift'' = None"
    by (simp add: env_not_installed_def)
  have launched:
    "fst (call_pyfun Tcksift (env_installed 2) ''all.tck'' ''wm_fod.mif'' ''sift.tck'') =
       [CmdString ''/usr/bin/tcksift all.tck wm_fod.mif sift.tck'']"
    by (simp add: tcksift_def run_and_pass_def env_installed_def)
  have status:
    "subprocess_run (env_installed 2)
       (CmdString ''/usr/bin/tcksift all.tck wm_fod.mif sift.tck'') = Inr 2"
    by (simp add: env_installed_def)
  from none
    wrapper_missing_tool_and_exit_status
      [where env = env_not_installed and input_tracks = "''all.tck''"
         and wm_fod = "''wm_fod.mif''" and filtered_tracks = "''sift.tck''"]
  have raised: "tcksift env_not_installed ''all.tck'' ''wm_fod.mif'' ''sift.tck'' =
                  ([], Inl TypeError)"
    by simp
  from launched status
    wrapper_missing_tool_and_exit_status
      [where env = "env_installed 2" and f = Tcksift and a = "''all.tck''"
         and b = "''wm_fod.mif''" and c = "''sift.tck''"]
  have returned:
    "snd (call_pyfun Tcksift (env_installed 2) ''all.tck'' ''wm_fod.mif'' ''sift.tck'') =
       Inr PyNone"
    by blast
  from none raised launched status returned show ?thesis by simp
qed

text \<open>
  Claim C4 says that a run that completes returns a map binding every declared output
  port to a Value, and that a run producing no Value for a declared output fails with
  MissingOutput. The node \<^verbatim>\<open>rigid_transform_estimation\<close> declares the output
  \<^verbatim>\<open>transform\<close> and runs \<^verbatim>\<open>mrregister_rigid\<close>, whose run with the tool installed and
  exiting with status 0 does not fail and returns \<^verbatim>\<open>None\<close>.
\<close>

theorem rigid_transform_estimation_no_output:
  "map (\<lambda>n. (node_name n, output_ports n, node_function n))
     (take 1 (global_objects (fst (import_dwi_nodes 0)))) =
     [(''rigid_transform_estimation'', [''transform''], Some Mrregister_rigid)] \<and>
   snd (call_pyfun Mrregister_rigid (env_installed 0) ''dwi.mif'' ''t1.mif'' ''rigid.txt'') =
     Inr PyNone"
  by (simp add: import_dwi_nodes_def pe_Node_def pe_Workflow_def mrregister_rigid_def
        run_and_pass_def env_installed_def)

text \<open>
  Claim C4, amended: a run of any of the three wrappers that completes returns
  \<^verbatim>\<open>None\<close>, so no Value for any output, and it does not fail for that; the three nodes
  of \<^verbatim>\<open>dwi_nodes.py\<close> that run them declare the outputs \<^verbatim>\<open>transform\<close>, \<^verbatim>\<open>output\<close> and
  \<^verbatim>\<open>filtered_tracks\<close>.
\<close>

theorem wrapper_returns_none:
  "(snd (call_pyfun f env a b c) = Inr v \<longrightarrow> v = PyNone) \<and>
   map (\<lambda>n. (node_name n, output_ports n, node_function n))
     (filter (\<lambda>n. \<not> is_workflow n) (global_objects (fst (import_dwi_nodes s)))) =
     [(''rigid_transform_estimation'', [''transform''], Some Mrregister_rigid),
      (''apply_linear_transform'', [''output''], Some Mrtransform_linear),
      (''sift_filtering'', [''filtered_tracks''], Some Tcksift)]"
proof -
  have "v = PyNone" if returned: "snd (call_pyfun f env a b c) = Inr v"
  proof -
    from wrapper_outcome [of f env a b c] returned obtain cmd where
      "snd (call_pyfun f env a b c) =
         (case subprocess_run env (CmdString cmd) of Inl e \<Rightarrow> Inl e | Inr status \<Rightarrow> Inr PyNone)"
      by auto
    with returned show ?thesis
      by (cases "subprocess_run env (CmdString cmd)") auto
  qed
  moreover have
    "map (\<lambda>n. (node_name n, output_ports n, node_function n))
       (filter (\<lambda>n. \<not> is_workflow n) (global_objects (fst (import_dwi_nodes s)))) =
       [(''rigid_transform_estimation'', [''transform''], Some Mrregister_rigid),
        (''apply_linear_transform'', [''output''], Some Mrtransform_linear),
        (''sift_filtering'', [''filtered_tracks''], Some Tcksift)]"
    by (simp add: import_dwi_nodes_def pe_Node_def pe_Workflow_def)
  ultimately show ?thesis by blast
qed

theorem wrapper_returns_none_witness:
  "snd (call_pyfun Mrtransform_linear (env_installed 0) ''5tt.mif'' ''5tt_dwi.mif'' ''rigid.txt'')
     = Inr PyNone"
proof -
  have "\<exists>v. snd (call_pyfun Mrtransform_linear (env_installed 0)
                  ''5tt.mif'' ''5tt_dwi.mif'' ''rigid.txt'') = Inr v"
    by (simp add: mrtransform_linear_def run_and_pass_def env_installed_def)
  with wrapper_returns_none
         [where f = Mrtransform_linear and env = "env_installed 0" and a = "''5tt.mif''"
            and b = "''5tt_dwi.mif''" and c = "''rigid.txt''"]
  show ?thesis by blast
qed

section \<open>The command a wrapper launches\<close>

text \<open>
  Claim C6 says that the command keeps the executable and every argument as distinct
  elements of an argument list. \<^verbatim>\<open>tcksift\<close> hands over one string, in which the
  arguments run together: two different calls give the same command.
\<close>

theorem tcksift_arguments_run_together:
  "fst (tcksift (env_installed 0) ''a b'' ''c'' ''d'') = [CmdString ''/usr/bin/tcksift a b c d''] \<and>
   fst (tcksift (env_installed 0) ''a'' ''b c'' ''d'') = [CmdString ''/usr/bin/tcksift a b c d'']"
  by (simp add: tcksift_def run_and_pass_def env_installed_def)

text \<open>
  Claim C6, amended: each wrapper concatenates the executable path, its fixed flags and
  its arguments into one string, with the blanks the source writes between them (one
  between two arguments, two between \<^verbatim>\<open>-type rigid\<close> and \<^verbatim>\<open>-rigid\<close>), and hands that
  single string to \<^verbatim>\<open>subprocess.run\<close>; no wrapper ever hands over an argument list.
\<close>

theorem wrapper_command_is_one_string:
  "(find_executable env ''mrregister'' = Some mrregister \<longrightarrow>
      fst (mrregister_rigid env image_path template transform) =
        [CmdString (mrregister @ '' -type rigid  -rigid '' @ transform @ '' '' @ image_path
                      @ '' '' @ template)]) \<and>
   (find_executable env ''mrtransform'' = Some mrtransform \<longrightarrow>
      fst (mrtransform_linear env input output transform) =
        [CmdString (mrtransform @ '' -linear '' @ transform @ '' -inverse '' @ input
                      @ '' '' @ output)]) \<and>
   (find_executable env ''tcksift'' = Some sift \<longrightarrow>
      fst (tcksift env input_tracks wm_fod filtered_tracks) =
        [CmdString (sift @ '' '' @ input_tracks @ '' '' @ wm_fod @ '' '' @ filtered_tracks)]) \<and>
   (\<forall>cmd \<in> set (fst (call_pyfun f env a b c)). \<not> is_arg_list cmd)"
proof -
  have strings:
    "find_executable env ''mrregister'' = Some mrregister \<longrightarrow>
       fst (mrregister_rigid env image_path template transform) =
         [CmdString (mrregister @ '' -type rigid  -rigid '' @ transform @ '' '' @ image_path
                       @ '' '' @ template)]"
    "find_executable env ''mrtransform'' = Some mrtransform \<longrightarrow>
       fst (mrtransform_linear env input output transform) =
         [CmdString (mrtransform @ '' -linear '' @ transform @ '' -inverse '' @ input
                       @ '' '' @ output)]"
    "find_executable env ''tcksift'' = Some sift \<longrightarrow>
       fst (tcksift env input_tracks wm_fod filtered_tracks) =
         [CmdString (sift @ '' '' @ input_tracks @ '' '' @ wm_fod @ '' '' @ filtered_tracks)]"
    by (simp_all add: mrregister_rigid_def mrtransform_linear_def tcksift_def run_and_pass_def
          split: sum.splits)
  have "\<forall>cmd \<in> set (fst (call_pyfun f env a b c)). \<not> is_arg_list cmd"
    using wrapper_outcome [of f env a b c] by auto
  with strings show ?thesis by blast
qed

theorem wrapper_command_is_one_string_witness:
  "find_executable (env_installed 0) ''mrregister'' = Some ''/usr/bin/mrregister'' \<and>
   fst (mrregister_rigid (env_installed 0) ''fa.mif'' ''t1.mif'' ''rigid.txt'') =
     [CmdString ''/usr/bin/mrregister -type rigid  -rigid rigid.txt fa.mif t1.mif''] \<and>
   \<not> is_arg_list (CmdString ''/usr/bin/mrregister -type rigid  -rigid rigid.txt fa.mif t1.mif'')"
proof -
  have found: "find_executable (env_installed 0) ''mrregister'' = Some ''/usr/bin/mrregister''"
    by (simp add: env_installed_def)
  from found
    wrapper_command_is_one_string
      [where env = "env_installed 0" and mrregister = "''/usr/bin/mrregister''"
         and image_path = "''fa.mif''" and template = "''t1.mif''"
         and transform = "''rigid.txt''"]
  show ?thesis by simp
qed




section \<open>The workflows the builders declare\<close>

text \<open>The value of each builder that depends on the library for port names only.\<close>

lemma add_endpoint_Nil: "add_endpoint [] n = [n]"
  by (simp add: add_endpoint_def)

lemma add_endpoint_Cons:
  "add_endpoint (c # cs) n =
     (if node_oid n = node_oid c then c # cs else c # add_endpoint cs n)"
  by (simp add: add_endpoint_def)

lemma create_preprocessing_pipeline_value:
  "create_preprocessing_pipeline L s =
     (Workflow (s + 4) ''preprocessing'' []
        [Node (s + 2) ''inputnode'' [] (IdentityInterface [''diffusion_volume''] False) [],
         Node s ''diffusionbiascorrect'' [(''use_ants'', PyBool True)]
           (lib_interface L ''mrtrix3.preprocess.DWIBiasCorrect'') [],
         Node (s + 1) ''diffusion2mask'' [] (lib_interface L ''mrtrix3.utils.BrainMask'') [],
         Node (s + 3) ''outputnode'' []
           (IdentityInterface [''corrected_diffusion_volume'', ''mask''] False) []]
        [(''inputnode'', ''diffusion_volume'', ''diffusionbiascorrect'', ''in_file''),
         (''diffusionbiascorrect'', ''out_file'', ''diffusion2mask'', ''in_file''),
         (''diffusionbiascorrect'', ''out_file'', ''outputnode'', ''corrected_diffusion_volume''),
         (''diffusion2mask'', ''out_file'', ''outputnode'', ''mask'')],
      s + 5)"
  by (simp add: create_preprocessing_pipeline_def pe_Node_def pe_Workflow_def
        add_endpoint_Nil add_endpoint_Cons)

lemma create_tensor_pipeline_value:
  "create_tensor_pipeline L s =
     (Workflow (s + 4) ''tensor'' []
        [Node (s + 2) ''inputnode'' [] (IdentityInterface [''diffusion_volume'', ''mask''] False) [],
         Node s ''diffusion2tensor'' [] (lib_interface L ''mrtrix3.reconst.FitTensor'') [],
         Node (s + 1) ''tensor2fa'' [] (lib_interface L ''mrtrix3.TensorMetrics'') [],
         Node (s + 3) ''outputnode'' [] (IdentityInterface [''tensor_coeff'', ''fa''] False) []]
        [(''inputnode'', ''diffusion_volume'', ''diffusion2tensor'', ''in_file''),
         (''inputnode'', ''mask'', ''diffusion2tensor'', ''in_mask''),
         (''diffusion2tensor'', ''out_file'', ''tensor2fa'', ''in_file''),
         (''diffusion2tensor'', ''out_file'', ''outputnode'', ''tensor_coeff''),
         (''tensor2fa'', ''out_fa'', ''outputnode'', ''fa'')],
      s + 5)"
  by (simp add: create_tensor_pipeline_def pe_Node_def pe_Workflow_def
        add_endpoint_Nil add_endpoint_Cons)

lemma create_spherical_deconvolution_pipeline_value:
  "create_spherical_deconvolution_pipeline L s =
     (Workflow (s + 4) ''msmt_csd'' []
        [Node (s + 2) ''inputnode'' []
           (IdentityInterface [''diffusion_volume'', ''mask'', ''5tt_file''] False) [],
         Node s ''diffusion2response'' [] (lib_interface L ''mrtrix3.preprocess.ResponseSD'')
           [(''algorithm'', PyStr ''msmt_5tt'')],
         Node (s + 1) ''diffusion2fod'' []
           (lib_interface L ''mrtrix3.reconst.ConstrainedSphericalDeconvolution'') [],
         Node (s + 3) ''outputnode'' [] (IdentityInterface [''wm_fod''] False) []]
        [(''inputnode'', ''diffusion_volume'', ''diffusion2response'', ''in_file''),
         (''inputnode'', ''mask'', ''diffusion2response'', ''in_mask''),
         (''inputnode'', ''5tt_file'', ''diffusion2response'', ''mtt_file''),
         (''diffusion2response'', ''wm_file'', ''diffusion2fod'', ''wm_txt''),
         (''diffusion2response'', ''gm_file'', ''diffusion2fod'', ''gm_txt''),
         (''diffusion2response'', ''csf_file'', ''diffusion2fod'', ''csf_txt''),
         (''inputnode'', ''diffusion_volume'', ''diffusion2fod'', ''in_file''),
         (''diffusion2fod'', ''wm_odf'', ''outputnode'', ''wm_odf'')],
      s + 5)"
  by (simp add: create_spherical_deconvolution_pipeline_def pe_Node_def pe_Workflow_def
        add_endpoint_Nil add_endpoint_Cons)

text \<open>What \<open>connect\<close> does to a workflow, and the connections of the other builders.\<close>

lemma connect_workflow [simp]:
  "is_workflow w \<Longrightarrow> is_workflow (connect w a p b q)"
  "node_name (connect w a p b q) = node_name w"
  "node_oid (connect w a p b q) = node_oid w"
  "is_workflow w \<Longrightarrow>
     connections (connect w a p b q) = connections w @ [(node_name a, p, node_name b, q)]"
  by (cases w; simp)+

lemma connect_ports_workflow [simp]:
  "is_workflow w \<Longrightarrow> is_workflow (connect_ports w a b ps)"
  "node_name (connect_ports w a b ps) = node_name w"
  "node_oid (connect_ports w a b ps) = node_oid w"
  "is_workflow w \<Longrightarrow>
     connections (connect_ports w a b ps) =
       connections w @ map (\<lambda>(sp, dp). (node_name a, sp, node_name b, dp)) ps"
  by (induction w a b ps rule: connect_ports.induct; simp)+

lemma connect_list_single [simp]:
  "connect_list w [(a, b, ps)] = connect_ports w a b ps"
  by simp

lemma pe_Workflow_simps [simp]:
  "fst (pe_Workflow n s) = Workflow s n [] [] []"
  "snd (pe_Workflow n s) = Suc s"
  by (simp_all add: pe_Workflow_def)

lemma pe_Node_simps [simp]:
  "fst (pe_Node iface n s) = Node s n [] iface []"
  "snd (pe_Node iface n s) = Suc s"
  by (simp_all add: pe_Node_def)

lemma builder_names [simp]:
  "node_name (fst (create_preprocessing_pipeline L s)) = ''preprocessing''"
  "node_name (fst (create_tensor_pipeline L s)) = ''tensor''"
  "node_name (fst (create_spherical_deconvolution_pipeline L s)) = ''msmt_csd''"
  by (simp_all add: create_preprocessing_pipeline_value create_tensor_pipeline_value
        create_spherical_deconvolution_pipeline_value)

lemma tractogram_name [simp]:
  "node_name (fst (create_tractogram_generation_pipeline L n s)) = ''tractogram_pipeline''"
  by (simp add: create_tractogram_generation_pipeline_def split_def Let_def)

lemma core_name [simp]:
  "node_name (fst (create_core_pipeline L s)) = ''core_diffusion_pipeline''"
  by (simp add: create_core_pipeline_def split_def Let_def)

lemma tractogram_connections:
  "connections (fst (create_tractogram_generation_pipeline L n s)) =
     (let tractography = node_name (fst (create_tractography_node L n MIN_LENGTH MAX_LENGTH s));
          sift_filtering = node_name (fst (create_sift_filtering_node L
                             (snd (create_tractography_node L n MIN_LENGTH MAX_LENGTH s))))
      in [(''inputnode'', ''wm_fod'', tractography, ''in_file''),
          (''inputnode'', ''mask'', tractography, ''roi_mask''),
          (''inputnode'', ''act_file'', tractography, ''act_file''),
          (''inputnode'', ''wm_fod'', sift_filtering, ''wm_fod''),
          (''inputnode'', ''mask'', tractography, ''seed_gmwmi''),
          (tractography, ''out_file'', sift_filtering, ''input_tracks''),
          (sift_filtering, ''filtered_tracks'', ''outputnode'', ''tractogram'')])"
  by (simp add: create_tractogram_generation_pipeline_def split_def Let_def)

lemma core_connections:
  "\<exists>tissue_classif rigid_registration.
   connections (fst (create_core_pipeline L s)) =
       [(''inputnode'', ''diffusion_volume'', ''preprocessing'', ''inputnode.diffusion_volume''),
        (''preprocessing'', ''outputnode.corrected_diffusion_volume'',
           ''tensor'', ''inputnode.diffusion_volume''),
        (''preprocessing'', ''outputnode.mask'', ''tensor'', ''inputnode.mask''),
        (''preprocessing'', ''outputnode.corrected_diffusion_volume'',
           ''msmt_csd'', ''inputnode.diffusion_volume''),
        (''tensor'', ''outputnode.fa'', rigid_registration, ''rigid_transform_estimation.image''),
        (''inputnode'', ''t1_volume'', tissue_classif, ''in_file''),
        (tissue_classif, ''out_file'', rigid_registration, ''apply_linear_transform.in_file''),
        (rigid_registration, ''apply_linear_transform.out_file'', ''msmt_csd'', ''inputnode.5tt_file''),
        (''preprocessing'', ''outputnode.mask'', ''msmt_csd'', ''inputnode.mask''),
        (''msmt_csd'', ''outputnode.wm_fod'', ''tractogram_pipeline'', ''inputnode.wm_fod''),
        (''preprocessing'', ''outputnode.mask'', ''tractogram_pipeline'', ''inputnode.mask''),
        (rigid_registration, ''apply_linear_transform.out_file'',
           ''tractogram_pipeline'', ''inputnode.act_file''),
        (''tractogram_pipeline'', ''outputnode.tractogram'', ''outputnode'', ''tractogram''),
        (''msmt_csd'', ''outputnode.wm_fod'', ''outputnode'', ''wm_fod''),
        (''preprocessing'', ''outputnode.corrected_diffusion_volume'',
           ''outputnode'', ''corrected_diffusion_volume'')]"
  by (simp add: create_core_pipeline_def split_def Let_def)

lemma diffusion_connections:
  "connections (fst (create_diffusion_pipeline L s)) =
     [(''inputnode'', ''diffusion_volume'', ''mrconvert'', ''in_file''),
      (''inputnode'', ''bvals'', ''mrconvert'', ''in_bval''),
      (''inputnode'', ''bvecs'', ''mrconvert'', ''in_bvec''),
      (''mrconvert'', ''out_file'', ''core_diffusion_pipeline'', ''inputnode.diffusion_volume''),
      (''inputnode'', ''t1_volume'', ''core_diffusion_pipeline'', ''inputnode.t1_volume''),
      (''core_diffusion_pipeline'', ''outputnode.corrected_diffusion_volume'',
         ''outputnode'', ''corrected_diffusion_volume''),
      (''core_diffusion_pipeline'', ''outputnode.wm_fod'', ''outputnode'', ''wm_fod''),
      (''core_diffusion_pipeline'', ''outputnode.tractogram'', ''outputnode'', ''tractogram'')]"
  by (simp add: create_diffusion_pipeline_def split_def Let_def)

lemma well_connected_empty: "well_connected ([], [])"
  by (simp add: well_connected_def)

lemma builder_workflows [simp]:
  "is_workflow (fst (create_preprocessing_pipeline L s))"
  "is_workflow (fst (create_tensor_pipeline L s))"
  "is_workflow (fst (create_spherical_deconvolution_pipeline L s))"
  by (simp_all add: create_preprocessing_pipeline_value create_tensor_pipeline_value
        create_spherical_deconvolution_pipeline_value)

lemma tractogram_workflow [simp]:
  "is_workflow (fst (create_tractogram_generation_pipeline L n s))"
  by (simp add: create_tractogram_generation_pipeline_def split_def Let_def)

lemma core_workflow [simp]: "is_workflow (fst (create_core_pipeline L s))"
  by (simp add: create_core_pipeline_def split_def Let_def)

lemma diffusion_workflow [simp]: "is_workflow (fst (create_diffusion_pipeline L s))"
  by (simp add: create_diffusion_pipeline_def split_def Let_def)

lemma connect_children [simp]:
  "is_workflow w \<Longrightarrow>
     children (connect w a p b q) = add_endpoint (add_endpoint (children w) a) b"
  by (cases w) simp_all

lemma builder_counts [simp]:
  "snd (create_preprocessing_pipeline L s) = s + 5"
  "snd (create_tensor_pipeline L s) = s + 5"
  "snd (create_spherical_deconvolution_pipeline L s) = s + 5"
  "node_oid (fst (create_preprocessing_pipeline L s)) = s + 4"
  "node_oid (fst (create_tensor_pipeline L s)) = s + 4"
  "node_oid (fst (create_spherical_deconvolution_pipeline L s)) = s + 4"
  by (simp_all add: create_preprocessing_pipeline_value create_tensor_pipeline_value
        create_spherical_deconvolution_pipeline_value)

lemma example_library_simps:
  "create_tissue_classification_node example_library s =
     (Node s ''tissue_classif'' [] (Library ''mrtrix3.Generate5tt'' [''in_file''] [''out_file'']) [],
      Suc s)"
  "create_sift_filtering_node example_library s =
     (Node s ''sift_filtering'' []
        (Function [''input_tracks'', ''wm_fod''] [''filtered_tracks''] Tcksift) [], Suc s)"
  "create_tractography_node example_library n lo hi s =
     (Node s ''tractography'' []
        (Library ''mrtrix3.Tractography''
           [''in_file'', ''roi_mask'', ''act_file'', ''seed_gmwmi''] [''out_file''])
        [(''select'', PyInt n), (''min_length'', PyInt lo), (''max_length'', PyInt hi)], Suc s)"
  "create_rigid_registration_pipeline example_library s =
     (Workflow (s + 2) ''rigid_registration'' []
        [Node s ''rigid_transform_estimation'' []
           (Function [''image'', ''template''] [''transform''] Mrregister_rigid) [],
         Node (s + 1) ''apply_linear_transform'' []
           (Function [''in_file'', ''transform''] [''out_file''] Mrtransform_linear) []]
        [(''rigid_transform_estimation'', ''transform'', ''apply_linear_transform'', ''transform'')],
      s + 3)"
  by (simp_all add: example_library_def pe_Node_def pe_Workflow_def add_endpoint_Nil
        add_endpoint_Cons)

lemma tractogram_count_example [simp]:
  "snd (create_tractogram_generation_pipeline example_library n s) = s + 5"
  "node_oid (fst (create_tractogram_generation_pipeline example_library n s)) = s + 4"
  by (simp_all add: create_tractogram_generation_pipeline_def split_def Let_def
        example_library_simps)

lemma core_children_example:
  "children (fst (create_core_pipeline example_library 0)) =
     [Node 24 ''inputnode'' [] (IdentityInterface [''diffusion_volume'', ''t1_volume''] False) [],
      fst (create_preprocessing_pipeline example_library 0),
      fst (create_tensor_pipeline example_library 5),
      fst (create_spherical_deconvolution_pipeline example_library 14),
      fst (create_rigid_registration_pipeline example_library 11),
      fst (create_tissue_classification_node example_library 10),
      fst (create_tractogram_generation_pipeline example_library N_TRACKS 19),
      Node 25 ''outputnode'' []
        (IdentityInterface [''corrected_diffusion_volume'', ''wm_fod'', ''tractogram''] False) []]"
  by (simp add: create_core_pipeline_def split_def Let_def example_library_simps
        add_endpoint_Nil add_endpoint_Cons)


section \<open>Assembling with the engine of the specification\<close>

lemma find_node_append:
  "find_node (cs @ [n]) name =
     (case find_node cs name of Some a \<Rightarrow> Some a
      | None \<Rightarrow> if node_name n = name then Some n else None)"
  by (induction cs) (auto simp: find_node_def)

lemma find_node_None: "find_node cs name = None \<longleftrightarrow> name \<notin> set (map node_name cs)"
  by (induction cs) (auto simp: find_node_def)

lemma spec_add_node_preserves:
  "well_connected r \<Longrightarrow> spec_add_node r n = Inr r' \<Longrightarrow> well_connected r'"
  by (cases r) (fastforce simp: well_connected_def spec_add_node_def find_node_append
        split: if_splits)

lemma spec_connect_preserves:
  "well_connected r \<Longrightarrow> spec_connect r c = Inr r' \<Longrightarrow> well_connected r'"
  by (cases r; cases c)
     (auto simp: well_connected_def split: option.splits if_splits)

lemma assemble_preserves:
  "well_connected r \<Longrightarrow> assemble r ops = Inr r' \<Longrightarrow> well_connected r'"
proof (induction ops arbitrary: r)
  case Nil
  then show ?case by simp
next
  case (Cons x xs)
  then show ?case
    by (cases x) (auto split: sum.splits dest: spec_add_node_preserves spec_connect_preserves)
qed

lemma assemble_names:
  "assemble r ops = Inr r' \<Longrightarrow> map node_name (fst r') = map node_name (fst r) @ added_names ops"
proof (induction ops arbitrary: r)
  case Nil
  then show ?case by simp
next
  case (Cons x xs)
  show ?case
  proof (cases x)
    case (AddNode n)
    with Cons show ?thesis
      by (auto simp: spec_add_node_def split: sum.splits if_splits)
  next
    case (Connect c)
    with Cons show ?thesis
      by (cases r; cases c) (auto split: sum.splits option.splits if_splits)
  qed
qed

lemma assemble_append:
  "assemble r (xs @ ys) = (case assemble r xs of Inl e \<Rightarrow> Inl e | Inr r' \<Rightarrow> assemble r' ys)"
  by (induction xs arbitrary: r) (auto split: sum.splits)

lemma preproc_assembles:
  "assemble ([], [])
     (map AddNode (children (fst (create_preprocessing_pipeline example_library 0))) @
      map Connect (connections (fst (create_preprocessing_pipeline example_library 0)))) =
   Inr (children (fst (create_preprocessing_pipeline example_library 0)),
        connections (fst (create_preprocessing_pipeline example_library 0)))"
  by (simp add: create_preprocessing_pipeline_value spec_add_node_def find_node_def
        declared_ports_def lib_interface_def example_library_def)

text \<open>
  Claim C9: in any workflow assembled from the empty one, a \<^verbatim>\<open>connect\<close> naming a source
  or destination node that no earlier \<^verbatim>\<open>add_node\<close> registered fails with \<open>UnknownPort\<close>,
  so the assembly ends there and the connection is not recorded.
\<close>

theorem connect_before_add_node:
  assumes "assemble ([], []) ops = Inr r"
    and "src \<notin> set (added_names ops) \<or> dst \<notin> set (added_names ops)"
  shows "assemble ([], []) (ops @ [Connect (src, sp, dst, dp)]) = Inl UnknownPort"
proof -
  obtain cs es where r: "r = (cs, es)" by (cases r)
  from assms(1) r have "map node_name cs = added_names ops"
    using assemble_names [of "([], [])" ops r] by simp
  with assms(2) have "find_node cs src = None \<or> find_node cs dst = None"
    by (simp add: find_node_None)
  then have "spec_connect (cs, es) (src, sp, dst, dp) = Inl UnknownPort"
    by (auto split: option.splits)
  with assms(1) r show ?thesis by (simp add: assemble_append)
qed

text \<open>
  The first call of \<^verbatim>\<open>create_preprocessing_pipeline\<close> on its new workflow is such a
  \<^verbatim>\<open>connect\<close>: no builder calls \<^verbatim>\<open>add_node\<close>.
\<close>

theorem connect_before_add_node_witness:
  "hd (connections (fst (create_preprocessing_pipeline example_library 0))) =
     (''inputnode'', ''diffusion_volume'', ''diffusionbiascorrect'', ''in_file'') \<and>
   assemble ([], [])
     [Connect (''inputnode'', ''diffusion_volume'', ''diffusionbiascorrect'', ''in_file'')] =
     Inl UnknownPort"
proof -
  have "assemble ([], []) [] = Inr ([], [])" by simp
  from connect_before_add_node [OF this, of "''inputnode''" "''diffusionbiascorrect''" "''diffusion_volume''"
             "''in_file''"]
  show ?thesis by (simp add: create_preprocessing_pipeline_value)
qed

text \<open>
  Claim C2 requires every connection made by the builders to name declared ports only.
  The last call of \<^verbatim>\<open>create_spherical_deconvolution_pipeline\<close> connects the output
  \<^verbatim>\<open>wm_odf\<close> of \<^verbatim>\<open>diffusion2fod\<close> to the port \<^verbatim>\<open>wm_odf\<close> of \<^verbatim>\<open>outputnode\<close>, whose only
  field is \<^verbatim>\<open>wm_fod\<close>; with the four nodes of the workflow registered and the seven
  earlier connections made, the engine's \<^verbatim>\<open>connect\<close> answers this call with
  \<open>UnknownPort\<close>, whatever ports the library gives the \<^verbatim>\<open>mrtrix3\<close> classes.
\<close>

theorem csd_wm_odf_unknown_port:
  "last (connections (fst (create_spherical_deconvolution_pipeline L s))) =
     (''diffusion2fod'', ''wm_odf'', ''outputnode'', ''wm_odf'') \<and>
   map input_ports
     (filter (\<lambda>n. node_name n = ''outputnode'')
        (children (fst (create_spherical_deconvolution_pipeline L s)))) = [[''wm_fod'']] \<and>
   spec_connect
     (children (fst (create_spherical_deconvolution_pipeline L s)),
      butlast (connections (fst (create_spherical_deconvolution_pipeline L s))))
     (last (connections (fst (create_spherical_deconvolution_pipeline L s)))) = Inl UnknownPort"
  by (simp add: create_spherical_deconvolution_pipeline_value find_node_def declared_ports_def)

theorem csd_wm_odf_unknown_port_witness:
  "spec_connect
     (children (fst (create_spherical_deconvolution_pipeline example_library 0)),
      butlast (connections (fst (create_spherical_deconvolution_pipeline example_library 0))))
     (''diffusion2fod'', ''wm_odf'', ''outputnode'', ''wm_odf'') = Inl UnknownPort"
proof -
  let ?csd = "fst (create_spherical_deconvolution_pipeline example_library 0)"
  from csd_wm_odf_unknown_port [of example_library 0]
  have call: "last (connections ?csd) = (''diffusion2fod'', ''wm_odf'', ''outputnode'', ''wm_odf'')"
    and answer: "spec_connect (children ?csd, butlast (connections ?csd))
                   (last (connections ?csd)) = Inl UnknownPort"
    by blast+
  from answer show ?thesis unfolding call .
qed

text \<open>
  Claim C5: a workflow the engine has assembled has at most one connection per
  destination port; the connections each of the six builders makes have pairwise
  different destinations; and in \<^verbatim>\<open>core_diffusion_pipeline\<close> the output
  \<^verbatim>\<open>outputnode.mask\<close> of \<^verbatim>\<open>preprocessing\<close> feeds three destinations.
\<close>

theorem one_source_per_input:
  "(assemble ([], []) ops = Inr r \<longrightarrow> distinct (map conn_dest (snd r))) \<and>
   distinct (map conn_dest (connections (fst (create_preprocessing_pipeline L s)))) \<and>
   distinct (map conn_dest (connections (fst (create_tensor_pipeline L s)))) \<and>
   distinct (map conn_dest (connections (fst (create_spherical_deconvolution_pipeline L s)))) \<and>
   distinct (map conn_dest (connections (fst (create_tractogram_generation_pipeline L n s)))) \<and>
   distinct (map conn_dest (connections (fst (create_core_pipeline L s)))) \<and>
   distinct (map conn_dest (connections (fst (create_diffusion_pipeline L s)))) \<and>
   map conn_dest
     (filter (\<lambda>e. conn_source e = (''preprocessing'', ''outputnode.mask''))
        (connections (fst (create_core_pipeline L s)))) =
     [(''tensor'', ''inputnode.mask''), (''msmt_csd'', ''inputnode.mask''),
      (''tractogram_pipeline'', ''inputnode.mask'')]"
proof -
  have engine: "assemble ([], []) ops = Inr r \<longrightarrow> distinct (map conn_dest (snd r))"
    using assemble_preserves [OF well_connected_empty, of ops r]
    by (simp add: well_connected_def)
  have preproc: "distinct (map conn_dest (connections (fst (create_preprocessing_pipeline L s))))"
    by (simp add: create_preprocessing_pipeline_value)
  have tensor: "distinct (map conn_dest (connections (fst (create_tensor_pipeline L s))))"
    by (simp add: create_tensor_pipeline_value)
  have csd:
    "distinct (map conn_dest (connections (fst (create_spherical_deconvolution_pipeline L s))))"
    by (simp add: create_spherical_deconvolution_pipeline_value)
  have tracto:
    "distinct (map conn_dest (connections (fst (create_tractogram_generation_pipeline L n s))))"
    by (simp add: tractogram_connections Let_def)
  obtain tissue_classif rigid_registration where core:
    "connections (fst (create_core_pipeline L s)) =
       [(''inputnode'', ''diffusion_volume'', ''preprocessing'', ''inputnode.diffusion_volume''),
        (''preprocessing'', ''outputnode.corrected_diffusion_volume'',
           ''tensor'', ''inputnode.diffusion_volume''),
        (''preprocessing'', ''outputnode.mask'', ''tensor'', ''inputnode.mask''),
        (''preprocessing'', ''outputnode.corrected_diffusion_volume'',
           ''msmt_csd'', ''inputnode.diffusion_volume''),
        (''tensor'', ''outputnode.fa'', rigid_registration, ''rigid_transform_estimation.image''),
        (''inputnode'', ''t1_volume'', tissue_classif, ''in_file''),
        (tissue_classif, ''out_file'', rigid_registration, ''apply_linear_transform.in_file''),
        (rigid_registration, ''apply_linear_transform.out_file'', ''msmt_csd'', ''inputnode.5tt_file''),
        (''preprocessing'', ''outputnode.mask'', ''msmt_csd'', ''inputnode.mask''),
        (''msmt_csd'', ''outputnode.wm_fod'', ''tractogram_pipeline'', ''inputnode.wm_fod''),
        (''preprocessing'', ''outputnode.mask'', ''tractogram_pipeline'', ''inputnode.mask''),
        (rigid_registration, ''apply_linear_transform.out_file'',
           ''tractogram_pipeline'', ''inputnode.act_file''),
        (''tractogram_pipeline'', ''outputnode.tractogram'', ''outputnode'', ''tractogram''),
        (''msmt_csd'', ''outputnode.wm_fod'', ''outputnode'', ''wm_fod''),
        (''preprocessing'', ''outputnode.corrected_diffusion_volume'',
           ''outputnode'', ''corrected_diffusion_volume'')]"
    using core_connections [of L s] by blast
  have core_distinct: "distinct (map conn_dest (connections (fst (create_core_pipeline L s))))"
    unfolding core by simp
  have fan_out:
    "map conn_dest
       (filter (\<lambda>e. conn_source e = (''preprocessing'', ''outputnode.mask''))
          (connections (fst (create_core_pipeline L s)))) =
       [(''tensor'', ''inputnode.mask''), (''msmt_csd'', ''inputnode.mask''),
        (''tractogram_pipeline'', ''inputnode.mask'')]"
    unfolding core by simp
  have diffusion: "distinct (map conn_dest (connections (fst (create_diffusion_pipeline L s))))"
    by (simp add: diffusion_connections)
  show ?thesis
    by (intro conjI engine preproc tensor csd tracto core_distinct fan_out diffusion)
qed

theorem one_source_per_input_witness:
  "assemble ([], [])
     (map AddNode (children (fst (create_preprocessing_pipeline example_library 0))) @
      map Connect (connections (fst (create_preprocessing_pipeline example_library 0)))) =
   Inr (children (fst (create_preprocessing_pipeline example_library 0)),
        connections (fst (create_preprocessing_pipeline example_library 0))) \<and>
   distinct (map conn_dest (connections (fst (create_preprocessing_pipeline example_library 0)))) \<and>
   map conn_dest
     (filter (\<lambda>e. conn_source e = (''diffusionbiascorrect'', ''out_file''))
        (connections (fst (create_preprocessing_pipeline example_library 0)))) =
     [(''diffusion2mask'', ''in_file''), (''outputnode'', ''corrected_diffusion_volume'')]"
proof -
  let ?pre = "fst (create_preprocessing_pipeline example_library 0)"
  have fan_out:
    "map conn_dest (filter (\<lambda>e. conn_source e = (''diffusionbiascorrect'', ''out_file''))
       (connections ?pre)) =
     [(''diffusion2mask'', ''in_file''), (''outputnode'', ''corrected_diffusion_volume'')]"
    by (simp add: create_preprocessing_pipeline_value)
  from one_source_per_input
         [where ops = "map AddNode (children ?pre) @ map Connect (connections ?pre)"
            and r = "(children ?pre, connections ?pre)"]
       preproc_assembles
  have "distinct (map conn_dest (connections ?pre))" by simp
  with preproc_assembles fan_out show ?thesis by blast
qed


section \<open>Flattening a workflow with an unbound exposed output\<close>

lemma subworkflows_self: "is_workflow w \<Longrightarrow> w \<in> set (subworkflows w)"
  by (cases w) simp_all

lemma subworkflows_child:
  "is_workflow w \<Longrightarrow> c \<in> set (children w) \<Longrightarrow> sub \<in> set (subworkflows c) \<Longrightarrow>
   sub \<in> set (subworkflows w)"
  by (cases w) auto

lemma subworkflows_are_workflows: "sub \<in> set (subworkflows w) \<Longrightarrow> is_workflow sub"
  by (induction w rule: subworkflows.induct) auto

lemma split_port_outputnode: "split_port (''outputnode.'' @ f) = Some (''outputnode'', f)"
  by (simp add: split_port_def)

lemma find_None_iff: "find P xs = None \<longleftrightarrow> (\<forall>x \<in> set xs. \<not> P x)"
  by (induction xs) auto

lemma resolve_unbound:
  assumes "is_workflow sub" and "f \<in> set (exposed_outputs sub)"
    and "(''outputnode'', f) \<notin> set (map conn_dest (connections sub))"
  shows "resolve_source sub (''outputnode.'' @ f) = Inl UnboundExposedPort"
proof (cases sub)
  case (Node i n attrs iface inputs)
  with assms(1) show ?thesis by simp
next
  case (Workflow i n attrs cs es)
  from assms(3) Workflow have "\<forall>c \<in> set es. conn_dest c \<noteq> (''outputnode'', f)"
    by (auto simp: image_iff)
  then have "find (\<lambda>c. conn_dest c = (''outputnode'', f)) es = None"
    by (simp add: find_None_iff)
  with assms(2) Workflow show ?thesis
    by (simp add: split_port_outputnode del: append.simps)
qed

lemma preproc_flattens:
  "flatten (fst (create_preprocessing_pipeline example_library 0)) =
     Inr (map (\<lambda>c. ([node_name c], c)) (children (fst (create_preprocessing_pipeline example_library 0))),
          map (\<lambda>(a, p, b, q). (([a], p), ([b], q)))
            (connections (fst (create_preprocessing_pipeline example_library 0))))"
  by (simp add: create_preprocessing_pipeline_value flatten_def unbound_outputs_def
        exposed_outputs_def find_node_def resolve_edge_def has_cycle_def lib_interface_def
        example_library_def numeral_eq_Suc)

text \<open>
  Claim C3: if a workflow, or a workflow nested in it at any depth, exposes an output
  port that no connection inside it ends at, flattening fails with
  \<open>UnboundExposedPort\<close>, and so does resolving a connection that consumes that port; and
  flattening succeeds only if the exposed port is internally connected.
\<close>

theorem flatten_unbound_exposed_port:
  assumes "sub \<in> set (subworkflows w)" and "f \<in> set (exposed_outputs sub)"
  shows "((''outputnode'', f) \<notin> set (map conn_dest (connections sub)) \<longrightarrow>
            flatten w = Inl UnboundExposedPort \<and>
            resolve_source sub (''outputnode.'' @ f) = Inl UnboundExposedPort) \<and>
         (\<forall>g. flatten w = Inr g \<longrightarrow>
            (''outputnode'', f) \<in> set (map conn_dest (connections sub)))"
proof -
  have fails: "flatten w = Inl UnboundExposedPort"
    if "(''outputnode'', f) \<notin> set (map conn_dest (connections sub))"
  proof -
    from that assms(2) have "f \<in> set (unbound_outputs sub)"
      by (simp add: unbound_outputs_def)
    then have "unbound_outputs sub \<noteq> []" by auto
    with assms(1) have "\<not> list_all (\<lambda>sub. unbound_outputs sub = []) (subworkflows w)"
      by (auto simp: list_all_iff)
    then show ?thesis by (simp add: flatten_def)
  qed
  have resolves: "resolve_source sub (''outputnode.'' @ f) = Inl UnboundExposedPort"
    if "(''outputnode'', f) \<notin> set (map conn_dest (connections sub))"
    using resolve_unbound [OF subworkflows_are_workflows [OF assms(1)] assms(2) that] .
  have succeeds: "(''outputnode'', f) \<in> set (map conn_dest (connections sub))"
    if "flatten w = Inr g" for g
  proof (rule ccontr)
    assume "(''outputnode'', f) \<notin> set (map conn_dest (connections sub))"
    then have "flatten w = Inl UnboundExposedPort" by (rule fails)
    with that show False by simp
  qed
  from fails resolves succeeds show ?thesis by blast
qed

text \<open>
  \<^verbatim>\<open>core_diffusion_pipeline\<close> consumes \<^verbatim>\<open>outputnode.wm_fod\<close> of \<^verbatim>\<open>msmt_csd\<close>, which no
  connection inside \<^verbatim>\<open>msmt_csd\<close> ends at: it does not flatten. \<^verbatim>\<open>preprocessing\<close> does.
\<close>

theorem flatten_unbound_exposed_port_witness:
  "fst (create_spherical_deconvolution_pipeline example_library 14)
     \<in> set (subworkflows (fst (create_core_pipeline example_library 0))) \<and>
   ''wm_fod'' \<in> set (exposed_outputs (fst (create_spherical_deconvolution_pipeline example_library 14))) \<and>
   (''outputnode'', ''wm_fod'')
     \<notin> set (map conn_dest (connections (fst (create_spherical_deconvolution_pipeline example_library 14)))) \<and>
   flatten (fst (create_core_pipeline example_library 0)) = Inl UnboundExposedPort \<and>
   ''mask'' \<in> set (exposed_outputs (fst (create_preprocessing_pipeline example_library 0))) \<and>
   (\<exists>g. flatten (fst (create_preprocessing_pipeline example_library 0)) = Inr g) \<and>
   (''outputnode'', ''mask'')
     \<in> set (map conn_dest (connections (fst (create_preprocessing_pipeline example_library 0))))"
proof -
  let ?csd = "fst (create_spherical_deconvolution_pipeline example_library 14)"
  let ?core = "fst (create_core_pipeline example_library 0)"
  let ?pre = "fst (create_preprocessing_pipeline example_library 0)"
  have "?csd \<in> set (children ?core)" by (simp add: core_children_example)
  then have sub: "?csd \<in> set (subworkflows ?core)"
    by (rule subworkflows_child [OF core_workflow _ subworkflows_self [OF builder_workflows(3)]])
  have exposed: "''wm_fod'' \<in> set (exposed_outputs ?csd)"
    by (simp add: create_spherical_deconvolution_pipeline_value exposed_outputs_def find_node_def)
  have unbound: "(''outputnode'', ''wm_fod'') \<notin> set (map conn_dest (connections ?csd))"
    by (simp add: create_spherical_deconvolution_pipeline_value)
  have self: "?pre \<in> set (subworkflows ?pre)"
    by (rule subworkflows_self [OF builder_workflows(1)])
  have mask: "''mask'' \<in> set (exposed_outputs ?pre)"
    by (simp add: create_preprocessing_pipeline_value exposed_outputs_def find_node_def)
  have flat: "\<exists>g. flatten ?pre = Inr g"
    by (simp add: preproc_flattens)
  from flatten_unbound_exposed_port [OF sub exposed] unbound
  have core_fails: "flatten ?core = Inl UnboundExposedPort" by blast
  from flatten_unbound_exposed_port [OF self mask] flat
  have bound: "(''outputnode'', ''mask'') \<in> set (map conn_dest (connections ?pre))" by blast
  from sub exposed unbound core_fails mask flat bound show ?thesis by blast
qed

section \<open>Module-level objects and the builders' objects\<close>

lemma set_add_endpoint: "set (add_endpoint cs n) \<subseteq> insert n (set cs)"
  by (auto simp: add_endpoint_def)

lemma oids_connect:
  "set (oids (connect w a p b q)) \<subseteq> set (oids w) \<union> set (oids a) \<union> set (oids b)"
proof (cases w)
  case (Node i n attrs iface inputs)
  then show ?thesis by simp
next
  case (Workflow i n attrs cs es)
  have "set (add_endpoint (add_endpoint cs a) b) \<subseteq> insert b (insert a (set cs))"
    using set_add_endpoint [of "add_endpoint cs a" b] set_add_endpoint [of cs a] by auto
  with Workflow show ?thesis by auto
qed

lemma oids_connect_within:
  "set (oids w) \<subseteq> X \<Longrightarrow> set (oids a) \<subseteq> X \<Longrightarrow> set (oids b) \<subseteq> X \<Longrightarrow>
   set (oids (connect w a p b q)) \<subseteq> X"
  using oids_connect [of w a p b q] by blast

lemma oids_connect_ports_within:
  "set (oids w) \<subseteq> X \<Longrightarrow> set (oids a) \<subseteq> X \<Longrightarrow> set (oids b) \<subseteq> X \<Longrightarrow>
   set (oids (connect_ports w a b ps)) \<subseteq> X"
  by (induction w a b ps rule: connect_ports.induct) (simp_all add: oids_connect_within)

lemma widen: "A \<subseteq> {a ..< b} \<Longrightarrow> s \<le> a \<Longrightarrow> b \<le> u \<Longrightarrow> A \<subseteq> {s ..< (u::nat)}"
  by auto

lemma fresh_callD:
  "fresh_call f \<Longrightarrow> s \<le> snd (f s)"
  "fresh_call f \<Longrightarrow> set (oids (fst (f s))) \<subseteq> {s ..< snd (f s)}"
  by (simp_all add: fresh_call_def)

lemma fresh_preprocessing: "fresh_call (create_preprocessing_pipeline L)"
  by (auto simp: fresh_call_def create_preprocessing_pipeline_value)

lemma fresh_tensor: "fresh_call (create_tensor_pipeline L)"
  by (auto simp: fresh_call_def create_tensor_pipeline_value)

lemma fresh_csd: "fresh_call (create_spherical_deconvolution_pipeline L)"
  by (auto simp: fresh_call_def create_spherical_deconvolution_pipeline_value)

lemma fresh_tractogram:
  assumes "fresh_library L"
  shows "fresh_call (create_tractogram_generation_pipeline L n)"
  unfolding fresh_call_def
proof (intro allI)
  fix s
  let ?t = "create_tractography_node L n MIN_LENGTH MAX_LENGTH"
  define s1 where "s1 = snd (?t s)"
  define s2 where "s2 = snd (create_sift_filtering_node L s1)"
  from assms have ft: "fresh_call ?t" and fs: "fresh_call (create_sift_filtering_node L)"
    by (simp_all add: fresh_library_def)
  have chain: "s \<le> s1" "s1 \<le> s2"
    using fresh_callD(1) [OF ft, of s] fresh_callD(1) [OF fs, of s1]
    by (simp_all add: s1_def s2_def)
  have built: "create_tractogram_generation_pipeline L n s =
    (connect (connect (connect (connect
       (connect_ports (Workflow (s2 + 2) ''tractogram_pipeline'' [] [] [])
          (Node s2 ''inputnode'' [] (IdentityInterface [''wm_fod'', ''mask'', ''act_file''] False) [])
          (fst (?t s))
          [(''wm_fod'', ''in_file''), (''mask'', ''roi_mask''), (''act_file'', ''act_file'')])
       (Node s2 ''inputnode'' [] (IdentityInterface [''wm_fod'', ''mask'', ''act_file''] False) [])
         ''wm_fod'' (fst (create_sift_filtering_node L s1)) ''wm_fod'')
       (Node s2 ''inputnode'' [] (IdentityInterface [''wm_fod'', ''mask'', ''act_file''] False) [])
         ''mask'' (fst (?t s)) ''seed_gmwmi'')
       (fst (?t s)) ''out_file'' (fst (create_sift_filtering_node L s1)) ''input_tracks'')
       (fst (create_sift_filtering_node L s1)) ''filtered_tracks''
       (Node (s2 + 1) ''outputnode'' [] (IdentityInterface [''tractogram''] False) []) ''tractogram'',
     s2 + 3)"
    by (simp add: create_tractogram_generation_pipeline_def split_def Let_def s1_def s2_def
          pe_Node_def pe_Workflow_def)
  have t: "set (oids (fst (?t s))) \<subseteq> {s ..< s2 + 3}"
    by (rule widen [OF fresh_callD(2) [OF ft]]) (use chain in \<open>simp_all add: s1_def\<close>)
  have f: "set (oids (fst (create_sift_filtering_node L s1))) \<subseteq> {s ..< s2 + 3}"
    by (rule widen [OF fresh_callD(2) [OF fs]]) (use chain in \<open>simp_all add: s2_def\<close>)
  have own: "set (oids (Workflow (s2 + 2) ''tractogram_pipeline'' [] [] [])) \<subseteq> {s ..< s2 + 3}"
    "set (oids (Node s2 ''inputnode'' []
       (IdentityInterface [''wm_fod'', ''mask'', ''act_file''] False) [])) \<subseteq> {s ..< s2 + 3}"
    "set (oids (Node (s2 + 1) ''outputnode'' [] (IdentityInterface [''tractogram''] False) []))
       \<subseteq> {s ..< s2 + 3}"
    using chain by simp_all
  have "set (oids (fst (create_tractogram_generation_pipeline L n s))) \<subseteq> {s ..< s2 + 3}"
    unfolding built fst_conv
    by (intro oids_connect_within oids_connect_ports_within t f own)
  moreover have "s \<le> s2 + 3" using chain by simp
  ultimately show "s \<le> snd (create_tractogram_generation_pipeline L n s) \<and>
      set (oids (fst (create_tractogram_generation_pipeline L n s)))
        \<subseteq> {s ..< snd (create_tractogram_generation_pipeline L n s)}"
    by (simp add: built)
qed


lemma fresh_core:
  assumes "fresh_library L"
  shows "fresh_call (create_core_pipeline L)"
  unfolding fresh_call_def
proof (intro allI)
  fix s
  let ?s1 = "snd (create_preprocessing_pipeline L s)"
  let ?s2 = "snd (create_tensor_pipeline L ?s1)"
  let ?s3 = "snd (create_tissue_classification_node L ?s2)"
  let ?s4 = "snd (create_rigid_registration_pipeline L ?s3)"
  let ?s5 = "snd (create_spherical_deconvolution_pipeline L ?s4)"
  let ?s6 = "snd (create_tractogram_generation_pipeline L N_TRACKS ?s5)"
  let ?s7 = "snd (pe_Node (IdentityInterface [''diffusion_volume'', ''t1_volume''] False)
                    ''inputnode'' ?s6)"
  let ?s8 = "snd (pe_Node (IdentityInterface
                     [''corrected_diffusion_volume'', ''wm_fod'', ''tractogram''] False)
                    ''outputnode'' ?s7)"
  let ?X = "{s ..< Suc ?s8}"
  from assms have lib:
    "fresh_call (create_tissue_classification_node L)"
    "fresh_call (create_rigid_registration_pipeline L)"
    by (simp_all add: fresh_library_def)
  note tracto = fresh_tractogram [OF assms, of N_TRACKS]
  have chain: "s \<le> ?s1" "?s1 \<le> ?s2" "?s2 \<le> ?s3" "?s3 \<le> ?s4" "?s4 \<le> ?s5"
    "?s5 \<le> ?s6" "?s6 \<le> ?s8"
    using fresh_callD(1) [OF lib(1), of ?s2] fresh_callD(1) [OF lib(2), of ?s3]
      fresh_callD(1) [OF tracto, of ?s5]
    by simp_all
  have subs:
    "set (oids (fst (create_preprocessing_pipeline L s))) \<subseteq> ?X"
    "set (oids (fst (create_tensor_pipeline L ?s1))) \<subseteq> ?X"
    "set (oids (fst (create_tissue_classification_node L ?s2))) \<subseteq> ?X"
    "set (oids (fst (create_rigid_registration_pipeline L ?s3))) \<subseteq> ?X"
    "set (oids (fst (create_spherical_deconvolution_pipeline L ?s4))) \<subseteq> ?X"
    "set (oids (fst (create_tractogram_generation_pipeline L N_TRACKS ?s5))) \<subseteq> ?X"
    subgoal by (rule widen [OF fresh_callD(2) [OF fresh_preprocessing]]) (use chain in linarith)+
    subgoal by (rule widen [OF fresh_callD(2) [OF fresh_tensor]]) (use chain in linarith)+
    subgoal by (rule widen [OF fresh_callD(2) [OF lib(1)]]) (use chain in linarith)+
    subgoal by (rule widen [OF fresh_callD(2) [OF lib(2)]]) (use chain in linarith)+
    subgoal by (rule widen [OF fresh_callD(2) [OF fresh_csd]]) (use chain in linarith)+
    subgoal by (rule widen [OF fresh_callD(2) [OF tracto]]) (use chain in linarith)+
    done
  have own:
    "set (oids (fst (pe_Node (IdentityInterface [''diffusion_volume'', ''t1_volume''] False)
                       ''inputnode'' ?s6))) \<subseteq> ?X"
    "set (oids (fst (pe_Node (IdentityInterface
                        [''corrected_diffusion_volume'', ''wm_fod'', ''tractogram''] False)
                       ''outputnode'' ?s7))) \<subseteq> ?X"
    "set (oids (fst (pe_Workflow ''core_diffusion_pipeline'' ?s8))) \<subseteq> ?X"
    using chain by simp_all
  have count: "snd (create_core_pipeline L s) = Suc ?s8"
    by (simp add: create_core_pipeline_def split_def Let_def)
  have "set (oids (fst (create_core_pipeline L s))) \<subseteq> ?X"
    unfolding create_core_pipeline_def split_def Let_def fst_conv
    by (intro oids_connect_within subs own)
  moreover have "s \<le> Suc ?s8" using chain by linarith
  ultimately show "s \<le> snd (create_core_pipeline L s) \<and>
      set (oids (fst (create_core_pipeline L s))) \<subseteq> {s ..< snd (create_core_pipeline L s)}"
    unfolding count by simp
qed

lemma fresh_diffusion:
  assumes "fresh_library L"
  shows "fresh_call (create_diffusion_pipeline L)"
  unfolding fresh_call_def
proof (intro allI)
  fix s
  let ?s1 = "snd (pe_Node (lib_interface L ''mrtrix3.MRConvert'') ''mrconvert'' s)"
  let ?s2 = "snd (create_core_pipeline L ?s1)"
  let ?s3 = "snd (pe_Node (IdentityInterface
                     [''diffusion_volume'', ''bvals'', ''bvecs'', ''t1_volume''] False)
                    ''inputnode'' ?s2)"
  let ?s4 = "snd (pe_Node (IdentityInterface
                     [''corrected_diffusion_volume'', ''wm_fod'', ''tractogram''] False)
                    ''outputnode'' ?s3)"
  let ?X = "{s ..< Suc ?s4}"
  note core = fresh_core [OF assms]
  have chain: "s \<le> ?s1" "?s1 \<le> ?s2" "?s2 \<le> ?s4"
    using fresh_callD(1) [OF core, of ?s1] by simp_all
  have sub: "set (oids (fst (create_core_pipeline L ?s1))) \<subseteq> ?X"
    by (rule widen [OF fresh_callD(2) [OF core]]) (use chain in linarith)+
  have own:
    "set (oids (fst (pe_Node (lib_interface L ''mrtrix3.MRConvert'') ''mrconvert'' s))) \<subseteq> ?X"
    "set (oids (fst (pe_Node (IdentityInterface
                        [''diffusion_volume'', ''bvals'', ''bvecs'', ''t1_volume''] False)
                       ''inputnode'' ?s2))) \<subseteq> ?X"
    "set (oids (fst (pe_Node (IdentityInterface
                        [''corrected_diffusion_volume'', ''wm_fod'', ''tractogram''] False)
                       ''outputnode'' ?s3))) \<subseteq> ?X"
    "set (oids (fst (pe_Workflow ''diffusion_pipeline'' ?s4))) \<subseteq> ?X"
    using chain by simp_all
  have count: "snd (create_diffusion_pipeline L s) = Suc ?s4"
    by (simp add: create_diffusion_pipeline_def split_def Let_def)
  have "set (oids (fst (create_diffusion_pipeline L s))) \<subseteq> ?X"
    unfolding create_diffusion_pipeline_def split_def Let_def fst_conv connect_list_single
    by (intro oids_connect_within oids_connect_ports_within sub own)
  moreover have "s \<le> Suc ?s4" using chain by linarith
  ultimately show "s \<le> snd (create_diffusion_pipeline L s) \<and>
      set (oids (fst (create_diffusion_pipeline L s)))
        \<subseteq> {s ..< snd (create_diffusion_pipeline L s)}"
    unfolding count by simp
qed

lemma fresh_example_library: "fresh_library example_library"
  by (auto simp: fresh_library_def fresh_call_def example_library_simps)

lemma fresh_calls_disjoint:
  assumes "fresh_call f"
  shows "set (oids (fst (f s))) \<inter> set (oids (fst (f (snd (f s))))) = {}"
  using fresh_callD(2) [OF assms, of s] fresh_callD(2) [OF assms, of "snd (f s)"]
  by (fastforce simp: subset_iff)

text \<open>
  Claim C7 says that importing a source module constructs no Node or Workflow object.
  Importing \<^verbatim>\<open>dwi_nodes.py\<close> constructs four, the first objects of the process when it
  starts from none, and binds them to module-level names.
\<close>

theorem dwi_nodes_import_constructs_objects:
  "map (\<lambda>n. (node_name n, node_oid n, is_workflow n)) (global_objects (fst (import_dwi_nodes 0))) =
     [(''rigid_transform_estimation'', 0, False), (''apply_linear_transform'', 1, False),
      (''rigid_registration'', 2, True), (''sift_filtering'', 3, False)] \<and>
   snd (import_dwi_nodes 0) = 4"
  by (simp add: import_dwi_nodes_def pe_Node_def pe_Workflow_def)

text \<open>
  Claim C7, amended: importing \<^verbatim>\<open>dwi_pipelines.py\<close> constructs no Node or Workflow
  object, while importing \<^verbatim>\<open>dwi_nodes.py\<close> constructs three nodes and the workflow
  \<^verbatim>\<open>rigid_registration\<close> and binds them at module level. Every call of
  \<^verbatim>\<open>create_preprocessing_pipeline\<close>, \<^verbatim>\<open>create_tensor_pipeline\<close> and
  \<^verbatim>\<open>create_spherical_deconvolution_pipeline\<close> constructs all objects of its result
  during the call; so does every call of \<^verbatim>\<open>create_tractogram_generation_pipeline\<close>,
  \<^verbatim>\<open>create_core_pipeline\<close> and \<^verbatim>\<open>create_diffusion_pipeline\<close> when the four imported
  functions do, and then two successive calls of \<^verbatim>\<open>create_diffusion_pipeline\<close> share
  no object.
\<close>

theorem builders_fresh_imports_not:
  "global_objects (fst (import_dwi_pipelines s)) = [] \<and>
   snd (import_dwi_pipelines s) = s \<and>
   map (\<lambda>n. (node_name n, node_oid n)) (global_objects (fst (import_dwi_nodes s))) =
     [(''rigid_transform_estimation'', s), (''apply_linear_transform'', s + 1),
      (''rigid_registration'', s + 2), (''sift_filtering'', s + 3)] \<and>
   snd (import_dwi_nodes s) = s + 4 \<and>
   fresh_call (create_preprocessing_pipeline L) \<and>
   fresh_call (create_tensor_pipeline L) \<and>
   fresh_call (create_spherical_deconvolution_pipeline L) \<and>
   (fresh_library L \<longrightarrow>
      fresh_call (create_tractogram_generation_pipeline L n_tracks) \<and>
      fresh_call (create_core_pipeline L) \<and>
      fresh_call (create_diffusion_pipeline L) \<and>
      set (oids (fst (create_diffusion_pipeline L s))) \<inter>
        set (oids (fst (create_diffusion_pipeline L (snd (create_diffusion_pipeline L s))))) = {})"
proof -
  have pipelines:
    "global_objects (fst (import_dwi_pipelines s)) = []" "snd (import_dwi_pipelines s) = s"
    by (simp_all add: import_dwi_pipelines_def)
  have nodes:
    "map (\<lambda>n. (node_name n, node_oid n)) (global_objects (fst (import_dwi_nodes s))) =
       [(''rigid_transform_estimation'', s), (''apply_linear_transform'', s + 1),
        (''rigid_registration'', s + 2), (''sift_filtering'', s + 3)]"
    "snd (import_dwi_nodes s) = s + 4"
    by (simp_all add: import_dwi_nodes_def pe_Node_def pe_Workflow_def)
  have lib:
    "fresh_call (create_tractogram_generation_pipeline L n_tracks) \<and>
     fresh_call (create_core_pipeline L) \<and>
     fresh_call (create_diffusion_pipeline L) \<and>
     set (oids (fst (create_diffusion_pipeline L s))) \<inter>
       set (oids (fst (create_diffusion_pipeline L (snd (create_diffusion_pipeline L s))))) = {}"
    if "fresh_library L"
    using fresh_tractogram [OF that] fresh_core [OF that] fresh_diffusion [OF that]
      fresh_calls_disjoint [OF fresh_diffusion [OF that]]
    by blast
  from pipelines nodes fresh_preprocessing fresh_tensor fresh_csd lib show ?thesis
    by blast
qed

theorem builders_fresh_imports_not_witness:
  "fresh_library example_library \<and>
   fresh_call (create_diffusion_pipeline example_library) \<and>
   set (oids (fst (create_diffusion_pipeline example_library 0))) \<inter>
     set (oids (fst (create_diffusion_pipeline example_library
                       (snd (create_diffusion_pipeline example_library 0))))) = {}"
  using builders_fresh_imports_not [of 0 example_library] fresh_example_library by blast


section \<open>Options assigned on constructed nodes\<close>




end
